theory Spec2Isabelle
  imports Main
begin

section \<open>Data model of the wallet client (lib/api.js)\<close>

text \<open>
  The client object \<open>API\<close> holds a reference to one \<open>Credentials\<close> object and talks to
  the coordination service through \<open>this.request\<close>. JavaScript values that may be
  \<open>undefined\<close> or \<open>null\<close> are options; \<open>truthy\<close> is the test \<open>if (x)\<close> on such a
  string (absent and the empty string are both falsy).
\<close>

definition truthy :: "string option \<Rightarrow> bool" where
  "truthy x = (case x of None \<Rightarrow> False | Some s \<Rightarrow> s \<noteq> [])"

text \<open>String concatenation with a value that may be \<open>undefined\<close>.\<close>

definition js_str :: "string option \<Rightarrow> string" where
  "js_str x = (case x of None \<Rightarrow> ''undefined'' | Some s \<Rightarrow> s)"

definition lower_char :: "char \<Rightarrow> char" where
  "lower_char c =
     (let k = (of_char c :: nat) in if 65 \<le> k \<and> k \<le> 90 then char_of (k + 32) else c)"

definition toLowerCase :: "string \<Rightarrow> string" where
  "toLowerCase s = map lower_char s"

subsection \<open>Credentials\<close>

text \<open>
  The fields of a \<open>Credentials\<close> object that lib/api.js reads or writes. \<open>cred_m\<close> and
  \<open>cred_n\<close> are the fields \<open>m\<close> and \<open>n\<close>.
\<close>

record Credentials =
  network :: string
  xPrivKey :: "string option"
  xPubKey :: string
  requestPrivKey :: "string option"
  copayerId :: string
  personalEncryptingKey :: string
  walletPrivKey :: "string option"
  sharedEncryptingKey :: "string option"
  walletId :: "string option"
  walletName :: "string option"
  cred_m :: "int option"
  cred_n :: "int option"
  copayerName :: "string option"
  publicKeyRing :: "string list"

text \<open>
  Modelled from the spec: \<open>Credentials.canSign\<close> (lib/credentials.js is not among the
  sources). Section 8 gives "canSign() iff signing private key present", and the signing
  private key is the field \<open>xPrivKey\<close> that \<open>export\<close> deletes for a no-sign export and
  that \<open>signTxp\<close> receives.
\<close>

definition Credentials_canSign :: "Credentials \<Rightarrow> bool" where
  "Credentials_canSign c = truthy (xPrivKey c)"

text \<open>
  Modelled from the spec: \<open>Credentials.hasWalletInfo\<close>, "wallet metadata set": the wallet
  id is known locally.
\<close>

definition Credentials_hasWalletInfo :: "Credentials \<Rightarrow> bool" where
  "Credentials_hasWalletInfo c = truthy (walletId c)"

text \<open>
  Modelled from the spec: \<open>Credentials.isComplete\<close>, "isComplete() iff ring size == n and
  wallet metadata set".
\<close>

definition Credentials_isComplete :: "Credentials \<Rightarrow> bool" where
  "Credentials_isComplete c =
     (cred_n c = Some (int (length (publicKeyRing c))) \<and> Credentials_hasWalletInfo c)"

text \<open>
  The keys of \<open>ring\<close> followed by those of \<open>xpubs\<close> that it does not hold yet, each
  once: the ring is a set of unique keys.
\<close>

definition mergeRing :: "string list \<Rightarrow> string list \<Rightarrow> string list" where
  "mergeRing ring xpubs = ring @ filter (\<lambda>k. k \<notin> set ring) (remdups xpubs)"

text \<open>The first \<open>n\<close> keys of a ring, all of them while \<open>n\<close> is not known.\<close>

definition capRing :: "int option \<Rightarrow> string list \<Rightarrow> string list" where
  "capRing n ring = (case n of None \<Rightarrow> ring | Some k \<Rightarrow> take (nat k) ring)"

text \<open>
  Modelled from the spec: \<open>Credentials.addPublicKeyRing\<close>, "extends ring" with the keys
  given. The ring has "size <= n" (section 3), so it is extended up to \<open>n\<close> keys and no
  further; a ring that holds \<open>n\<close> keys stays as it is, which keeps \<open>isComplete()\<close>
  "permanently true" once the size has reached \<open>n\<close> (section 4.1).
\<close>

definition Credentials_addPublicKeyRing :: "Credentials \<Rightarrow> string list \<Rightarrow> Credentials" where
  "Credentials_addPublicKeyRing c xpubs =
     c\<lparr>publicKeyRing := capRing (cred_n c) (mergeRing (publicKeyRing c) xpubs)\<rparr>"

text \<open>
  Modelled from the spec: \<open>Credentials.addWalletInfo\<close>, "sets wallet-level fields" and
  "computes sharedEncryptingKey from wallet-level key material"; the derivation itself is
  a primitive of the crypto provider, passed as \<open>derive\<close>. Without a wallet-level key
  the shared key is left as it was. The ring keeps "size <= n" (section 3) under the
  \<open>n\<close> that is set.
\<close>

definition Credentials_addWalletInfo ::
  "(string \<Rightarrow> string) \<Rightarrow> Credentials \<Rightarrow> string option \<Rightarrow> string option \<Rightarrow> int option \<Rightarrow>
     int option \<Rightarrow> string option \<Rightarrow> string option \<Rightarrow> Credentials" where
  "Credentials_addWalletInfo derive c wid wname wm wn wpk cname =
     c\<lparr>walletId := wid, walletName := wname, cred_m := wm, cred_n := wn,
       walletPrivKey := wpk,
       sharedEncryptingKey :=
         (case wpk of None \<Rightarrow> sharedEncryptingKey c | Some k \<Rightarrow> Some (derive k)),
       copayerName := cname,
       publicKeyRing := capRing wn (publicKeyRing c)\<rparr>"

subsection \<open>Server projections\<close>

record action =
  a_copayerId :: string
  a_type :: string
  comment :: "string option"

record txp =
  t_id :: string
  creatorId :: "string option"
  toAddress :: string
  amount :: int
  message :: "string option"
  encryptedMessage :: "string option"
  proposalSignature :: string
  signatures :: "string list option"
  actions :: "action list"

record copayer =
  cp_id :: string
  cp_name :: string
  cp_xPubKey :: string

record wallet =
  w_id :: string
  w_name :: string
  w_m :: int
  w_n :: int
  w_status :: string
  w_copayers :: "copayer list"
  w_secret :: "string option"

subsection \<open>Errors\<close>

text \<open>
  Every way an operation of lib/api.js fails, thrown or handed to the callback:
  \<^item> \<open>StateError\<close>, \<open>ArgumentError\<close>: \<open>$.checkState\<close> and \<open>$.checkArgument\<close> throw;
  \<^item> \<open>Message s\<close>: \<open>cb('...')\<close> with a plain string;
  \<^item> \<open>Error s\<close>: \<open>new Error('...')\<close>, thrown or handed to the callback;
  \<^item> \<open>ServerCompromisedError s\<close>: the trust violation;
  \<^item> \<open>ClientError code message\<close> and \<open>GenericError error\<close>: what \<open>_parseError\<close> builds from
    a response whose status is not 200;
  \<^item> \<open>RequestError e\<close>: the transport's own error, passed on unchanged;
  \<^item> \<open>Exception e\<close>: an exception of an external library that is thrown again as it is;
  \<^item> \<open>TypeError\<close>: a property read on \<open>undefined\<close> or \<open>null\<close>;
  \<^item> \<open>ShapeError\<close>: the server answered 200 with a body of a shape its endpoint never
    has; JavaScript would coerce it, the model stops there.
\<close>

datatype error =
    StateError
  | ArgumentError
  | Message string
  | Error string
  | ServerCompromisedError string
  | ClientError string "string option"
  | GenericError "string option"
  | RequestError string
  | Exception string
  | TypeError
  | ShapeError

subsection \<open>Requests and responses\<close>

datatype req_args =
    NoArgs
  | WalletArgs string int int string string
  | CopayerArgs "string option" string string string
  | TxProposalArgs string int "string option" string
  | SignaturesArgs "string list"

record http_request =
  relUrl :: string
  x_identity :: string
  x_signature :: "string option"
  req_method :: string
  req_url :: string
  req_body :: req_args

record resp_obj =
  o_walletId :: "string option"
  o_wallet :: "wallet option"
  o_pendingTxps :: "txp list option"
  o_code :: "string option"
  o_message :: "string option"
  o_error :: "string option"

datatype resp_body =
    BNull
  | BString string
  | BObject resp_obj
  | BTxps "txp list"
  | BTxp txp

datatype transport_result =
    NetError string
  | Response int resp_body

text \<open>The value of \<open>JSON.parse\<close> on the decrypted public key ring.\<close>

datatype parsed_ring =
    PArray "string list"
  | PNotArray

subsection \<open>External collaborators\<close>

text \<open>
  The libraries lib/api.js calls (bitcore-wallet-utils, bitcore, sjcl, JSON, the
  transport \<open>request\<close>) and the modules of this repository that are not among the sources
  (lib/verifier.js, the codec of lib/credentials.js) are parameters. A function that
  throws returns \<open>None\<close> (or \<open>Inl\<close> the exception). A function that draws randomness
  (a new key, the initialisation vector of an encryption) takes the draw as its first
  argument. \<open>'srv\<close> is the state of the coordination service, \<open>'d\<close> the serialised form
  of a credential set, which lib/api.js never looks into.
\<close>

record ('srv, 'd) env =
  request :: "'srv \<Rightarrow> http_request \<Rightarrow> transport_result \<times> 'srv"
  WalletUtils_encryptMessage :: "nat \<Rightarrow> string \<Rightarrow> string option \<Rightarrow> string"
  WalletUtils_decryptMessage :: "string \<Rightarrow> string option \<Rightarrow> string option"
  WalletUtils_signMessage :: "string \<Rightarrow> string option \<Rightarrow> string"
  WalletUtils_getProposalHash :: "string \<Rightarrow> int \<Rightarrow> string option \<Rightarrow> string"
  WalletUtils_toSecret :: "string option \<Rightarrow> string option \<Rightarrow> string \<Rightarrow> string"
  WalletUtils_signTxp :: "txp \<Rightarrow> string option \<Rightarrow> string list"
  Verifier_checkCopayers :: "Credentials \<Rightarrow> copayer list \<Rightarrow> bool"
  Verifier_checkTxProposal :: "Credentials \<Rightarrow> txp \<Rightarrow> bool"
  Credentials_create :: "nat \<Rightarrow> string \<Rightarrow> Credentials"
  Credentials_deriveSharedKey :: "string \<Rightarrow> string"
  Credentials_exportCompressed :: "Credentials \<Rightarrow> 'd"
  Credentials_importCompressed :: "'d \<Rightarrow> Credentials option"
  JSON_stringify_toObj :: "Credentials \<Rightarrow> 'd"
  Credentials_fromObj_JSON_parse :: "'d \<Rightarrow> Credentials option"
  sjcl_encrypt :: "nat \<Rightarrow> string \<Rightarrow> 'd \<Rightarrow> 'd"
  sjcl_decrypt :: "string \<Rightarrow> 'd \<Rightarrow> string + 'd"
  PrivateKey_new :: "nat \<Rightarrow> string"
  PrivateKey_toPublicKey :: "string \<Rightarrow> string"
  JSON_stringify_args :: "req_args \<Rightarrow> string"
  JSON_stringify_ring :: "string list \<Rightarrow> string"
  JSON_parse_ring :: "string \<Rightarrow> parsed_ring option"
  JSON_parse_body :: "string \<Rightarrow> resp_body option"

subsection \<open>The client object\<close>

text \<open>
  \<open>credentials\<close> is the field \<open>this.credentials\<close>: a reference into the store
  \<open>objects\<close> of \<open>Credentials\<close> objects, or absent. \<open>fresh\<close> is the next unused address.
  \<open>sent\<close> lists the requests handed to the transport, oldest first; \<open>entropy\<close> counts
  the random draws made so far; \<open>warnings\<close> are the lines of \<open>log.warn\<close> (output at
  the other log levels is not recorded).
\<close>

type_synonym addr = nat

record 'srv api =
  credentials :: "addr option"
  objects :: "addr \<Rightarrow> Credentials"
  fresh :: addr
  baseUrl :: string
  basePath :: string
  server :: 'srv
  sent :: "http_request list"
  entropy :: nat
  warnings :: "string list"

definition this_credentials :: "'srv api \<Rightarrow> Credentials option" where
  "this_credentials st = map_option (objects st) (credentials st)"

text \<open>\<open>new Credentials()\<close>: a new object at the next unused address.\<close>

definition new_object :: "Credentials \<Rightarrow> 'srv api \<Rightarrow> addr \<times> 'srv api" where
  "new_object c st =
     (fresh st, st\<lparr>objects := (objects st)(fresh st := c), fresh := Suc (fresh st)\<rparr>)"

text \<open>A write to fields of the object at address \<open>a\<close>.\<close>

definition store :: "addr \<Rightarrow> Credentials \<Rightarrow> 'srv api \<Rightarrow> 'srv api" where
  "store a c st = st\<lparr>objects := (objects st)(a := c)\<rparr>"

text \<open>
  The client's reference, when it has one, is to an object made earlier. This holds of a
  client without credentials and is kept by every operation below.
\<close>

definition allocated :: "'srv api \<Rightarrow> bool" where
  "allocated st = (case credentials st of None \<Rightarrow> True | Some a \<Rightarrow> a < fresh st)"

definition draw :: "'srv api \<Rightarrow> nat \<times> 'srv api" where
  "draw st = (entropy st, st\<lparr>entropy := Suc (entropy st)\<rparr>)"

definition log_warn :: "string \<Rightarrow> 'srv api \<Rightarrow> 'srv api" where
  "log_warn s st = st\<lparr>warnings := warnings st @ [s]\<rparr>"

section \<open>Static helpers of lib/api.js\<close>

text \<open>
  \<open>API._encryptMessage\<close>: nothing is encrypted for a falsy message; otherwise the
  library encrypts, drawing its randomness.
\<close>

definition API_encryptMessage ::
  "('srv, 'd) env \<Rightarrow> string option \<Rightarrow> string option \<Rightarrow> 'srv api \<Rightarrow> string option \<times> 'srv api" where
  "API_encryptMessage E msg encryptingKey st =
     (if \<not> truthy msg then (None, st)
      else let (r, st') = draw st
           in (Some (WalletUtils_encryptMessage E r (js_str msg) encryptingKey), st'))"

text \<open>\<open>API._decryptMessage\<close>: the \<open>catch\<close> turns a failed decryption into a placeholder.\<close>

definition API_decryptMessage ::
  "('srv, 'd) env \<Rightarrow> string option \<Rightarrow> string option \<Rightarrow> string" where
  "API_decryptMessage E msg encryptingKey =
     (if \<not> truthy msg then []
      else case WalletUtils_decryptMessage E (js_str msg) encryptingKey of
             Some plain \<Rightarrow> plain
           | None \<Rightarrow> ''<ECANNOTDECRYPT>'')"

text \<open>
  \<open>API._processTxps\<close> rewrites each proposal in place: the wire message moves to
  \<open>encryptedMessage\<close>, \<open>message\<close> and every action's \<open>comment\<close> become the decrypted text.
  A falsy argument is left alone.
\<close>

definition processAction :: "('srv, 'd) env \<Rightarrow> string option \<Rightarrow> action \<Rightarrow> action" where
  "processAction E encryptingKey a =
     a\<lparr>comment := Some (API_decryptMessage E (comment a) encryptingKey)\<rparr>"

definition processTxp :: "('srv, 'd) env \<Rightarrow> string option \<Rightarrow> txp \<Rightarrow> txp" where
  "processTxp E encryptingKey t =
     t\<lparr>encryptedMessage := message t,
       message := Some (API_decryptMessage E (message t) encryptingKey),
       actions := map (processAction E encryptingKey) (actions t)\<rparr>"

definition API_processTxps ::
  "('srv, 'd) env \<Rightarrow> txp list option \<Rightarrow> string option \<Rightarrow> txp list option" where
  "API_processTxps E txps encryptingKey =
     (case txps of None \<Rightarrow> None | Some l \<Rightarrow> Some (map (processTxp E encryptingKey) l))"

definition error_only :: "string \<Rightarrow> resp_obj" where
  "error_only s =
     \<lparr>o_walletId = None, o_wallet = None, o_pendingTxps = None, o_code = None,
      o_message = None, o_error = Some s\<rparr>"

text \<open>\<open>API._parseError\<close>, on the body of a response whose status is not 200.\<close>

definition API_parseError :: "('srv, 'd) env \<Rightarrow> resp_body \<Rightarrow> error" where
  "API_parseError E body =
     (let body1 = (case body of
                     BString s \<Rightarrow> (case JSON_parse_body E s of
                                     Some b \<Rightarrow> b
                                   | None \<Rightarrow> BObject (error_only s))
                   | b \<Rightarrow> b)
      in case body1 of
           BNull \<Rightarrow> GenericError (Some ''There was an unknown error processing the request'')
         | BString s \<Rightarrow>
             (if s = [] then GenericError (Some ''There was an unknown error processing the request'')
              else GenericError None)
         | BObject ob \<Rightarrow>
             (if truthy (o_code ob) then ClientError (js_str (o_code ob)) (o_message ob)
              else GenericError (o_error ob))
         | BTxps l \<Rightarrow> GenericError None
         | BTxp t \<Rightarrow> GenericError None)"

text \<open>\<open>API._signRequest\<close>.\<close>

definition API_signRequest ::
  "('srv, 'd) env \<Rightarrow> string \<Rightarrow> string \<Rightarrow> req_args \<Rightarrow> string \<Rightarrow> string" where
  "API_signRequest E meth url args privKey =
     WalletUtils_signMessage E
       (toLowerCase meth @ ''|'' @ url @ ''|'' @ JSON_stringify_args E args) (Some privKey)"


definition prop_wallet :: "resp_body \<Rightarrow> error + wallet option" where
  "prop_wallet body =
     (case body of BNull \<Rightarrow> Inl TypeError | BObject ob \<Rightarrow> Inr (o_wallet ob) | _ \<Rightarrow> Inr None)"

text \<open>A body that is a list of proposals, or \<open>null\<close>.\<close>

definition body_txps :: "resp_body \<Rightarrow> error + txp list option" where
  "body_txps body =
     (case body of BTxps l \<Rightarrow> Inr (Some l) | BNull \<Rightarrow> Inr None | _ \<Rightarrow> Inl ShapeError)"

section \<open>Seeding, export and import\<close>

definition seedFromRandom :: "('srv, 'd) env \<Rightarrow> string \<Rightarrow> 'srv api \<Rightarrow> 'srv api" where
  "seedFromRandom E net st =
     (let (r, st1) = draw st;
          (b, st2) = new_object (Credentials_create E r net) st1
      in st2\<lparr>credentials := Some b\<rparr>)"

text \<open>
  Modelled from the spec: \<open>Credentials.fromObj\<close> (lib/credentials.js is not among the
  sources) builds a new \<open>Credentials\<close> object holding the fields of its argument.
\<close>

definition Credentials_fromObj :: "Credentials \<Rightarrow> 'srv api \<Rightarrow> addr \<times> 'srv api" where
  "Credentials_fromObj obj st = new_object obj st"

text \<open>The option bag of \<open>export\<close> and \<open>import\<close>; \<open>import\<close> does not read \<open>noSign\<close>.\<close>

record export_opts =
  compressed :: bool
  password :: "string option"
  noSign :: bool

text \<open>
  \<open>API.prototype.export\<close>. \<open>delete cred.xPrivKey\<close> is a write to the object \<open>cred\<close>
  refers to.
\<close>

definition API_export ::
  "('srv, 'd) env \<Rightarrow> export_opts \<Rightarrow> 'srv api \<Rightarrow> (error + 'd) \<times> 'srv api" where
  "API_export E opts st =
     (case credentials st of
        None \<Rightarrow> (Inl StateError, st)
      | Some a \<Rightarrow>
          let (cred, st1) = Credentials_fromObj (objects st a) st;
              st2 = (if noSign opts then store cred ((objects st1 cred)\<lparr>xPrivKey := None\<rparr>) st1
                     else st1);
              output = (if compressed opts then Credentials_exportCompressed E (objects st2 cred)
                        else JSON_stringify_toObj E (objects st2 cred))
          in if truthy (password opts)
             then let (r, st3) = draw st2
                  in (Inr (sjcl_encrypt E r (js_str (password opts)) output), st3)
             else (Inr output, st2))"

text \<open>
  \<open>API.prototype.import\<close>. The \<open>catch\<close> around \<open>sjcl.decrypt\<close> throws the library's
  exception again (\<open>throw ex\<close>); the statement after it,
  \<open>throw new Error('Incorrect password')\<close>, is never reached.
\<close>

definition API_import ::
  "('srv, 'd) env \<Rightarrow> 'd \<Rightarrow> export_opts \<Rightarrow> 'srv api \<Rightarrow> (error + unit) \<times> 'srv api" where
  "API_import E str opts st =
     (case (if truthy (password opts)
            then (case sjcl_decrypt E (js_str (password opts)) str of
                    Inl ex \<Rightarrow> Inl (Exception ex)
                  | Inr plain \<Rightarrow> Inr plain)
            else Inr str) of
        Inl e \<Rightarrow> (Inl e, st)
      | Inr input \<Rightarrow>
          (case (if compressed opts then Credentials_importCompressed E input
                 else Credentials_fromObj_JSON_parse E input) of
             None \<Rightarrow> (Inl (Error ''Error importing from source''), st)
           | Some c \<Rightarrow>
               let (b, st1) = new_object c st
               in (Inr (), st1\<lparr>credentials := Some b\<rparr>)))"

section \<open>Requests\<close>

text \<open>
  \<open>API.prototype._doRequest\<close>. The request is signed when a request key exists. The
  callback receives the transport's error, the parsed error of a response whose status
  is not 200, or the body.
\<close>

definition doRequest ::
  "('srv, 'd) env \<Rightarrow> string \<Rightarrow> string \<Rightarrow> req_args \<Rightarrow> 'srv api \<Rightarrow> (error + resp_body) \<times> 'srv api" where
  "doRequest E meth url args st =
     (case credentials st of
        None \<Rightarrow> (Inl StateError, st)
      | Some a \<Rightarrow>
          let c = objects st a;
              reqSignature = (if truthy (requestPrivKey c)
                              then Some (API_signRequest E meth url args (js_str (requestPrivKey c)))
                              else None);
              req = \<lparr>relUrl = basePath st @ url, x_identity = copayerId c,
                     x_signature = reqSignature, req_method = meth,
                     req_url = baseUrl st @ url, req_body = args\<rparr>;
              (res, srv) = request E (server st) req;
              st1 = st\<lparr>server := srv, sent := sent st @ [req]\<rparr>
          in case res of
               NetError err \<Rightarrow> (Inl (RequestError err), st1)
             | Response statusCode body \<Rightarrow>
                 (if statusCode \<noteq> 200 then (Inl (API_parseError E body), st1)
                  else (Inr body, st1)))"

definition doPostRequest ::
  "('srv, 'd) env \<Rightarrow> string \<Rightarrow> req_args \<Rightarrow> 'srv api \<Rightarrow> (error + resp_body) \<times> 'srv api" where
  "doPostRequest E url args st = doRequest E ''post'' url args st"

definition doGetRequest ::
  "('srv, 'd) env \<Rightarrow> string \<Rightarrow> 'srv api \<Rightarrow> (error + resp_body) \<times> 'srv api" where
  "doGetRequest E url st = doRequest E ''get'' url NoArgs st"

text \<open>\<open>API.prototype._doJoinWallet\<close>.\<close>

definition doJoinWallet ::
  "('srv, 'd) env \<Rightarrow> string option \<Rightarrow> string \<Rightarrow> string \<Rightarrow> string \<Rightarrow> 'srv api \<Rightarrow>
     (error + wallet option) \<times> 'srv api" where
  "doJoinWallet E wid wPrivKey xpub cname st =
     (let args = CopayerArgs wid cname xpub (WalletUtils_signMessage E xpub (Some wPrivKey));
          url = ''/v1/wallets/'' @ js_str wid @ ''/copayers''
      in case doPostRequest E url args st of
           (Inl err, st1) \<Rightarrow> (Inl err, st1)
         | (Inr body, st1) \<Rightarrow>
             (case prop_wallet body of
                Inl e \<Rightarrow> (Inl e, st1)
              | Inr w \<Rightarrow> (Inr w, st1)))"

definition isComplete :: "'srv api \<Rightarrow> bool" where
  "isComplete st =
     (case this_credentials st of None \<Rightarrow> False | Some c \<Rightarrow> Credentials_isComplete c)"

definition canSign :: "'srv api \<Rightarrow> bool" where
  "canSign st =
     (case this_credentials st of None \<Rightarrow> False | Some c \<Rightarrow> Credentials_canSign c)"

section \<open>Wallet operations\<close>

text \<open>
  \<open>API.prototype.openWallet\<close>. The callback's flag is the result. \<open>me.name\<close> throws
  when no copayer of the server's list carries the local copayer id.
\<close>

definition openWallet ::
  "('srv, 'd) env \<Rightarrow> 'srv api \<Rightarrow> (error + bool) \<times> 'srv api" where
  "openWallet E st =
     (case credentials st of
        None \<Rightarrow> (Inl StateError, st)
      | Some a \<Rightarrow>
          if Credentials_isComplete (objects st a) then (Inr False, st)
          else case doGetRequest E ''/v1/wallets/'' st of
            (Inl err, st1) \<Rightarrow> (Inl err, st1)
          | (Inr ret, st1) \<Rightarrow>
              (case prop_wallet ret of
                 Inl e \<Rightarrow> (Inl e, st1)
               | Inr None \<Rightarrow> (Inl TypeError, st1)
               | Inr (Some w) \<Rightarrow>
                   if w_status w \<noteq> ''complete'' then (Inl (Message ''Wallet Incomplete''), st1)
                   else if truthy (walletPrivKey (objects st1 a)) \<and>
                           \<not> Verifier_checkCopayers E (objects st1 a) (w_copayers w)
                   then (Inl (ServerCompromisedError
                          ''Copayers in the wallet could not be verified to have known the wallet secret''),
                         st1)
                   else
                     let st2 = (if truthy (walletPrivKey (objects st1 a)) then st1
                                else log_warn
                                  ''Could not perform verification of other copayers in the wallet'' st1);
                         st3 = store a (Credentials_addPublicKeyRing (objects st2 a)
                                          (map cp_xPubKey (w_copayers w))) st2
                     in if \<not> Credentials_hasWalletInfo (objects st3 a)
                        then (case find (\<lambda>cp. cp_id cp = copayerId (objects st3 a)) (w_copayers w) of
                                None \<Rightarrow> (Inl TypeError, st3)
                              | Some me \<Rightarrow>
                                  (Inr True,
                                   store a (Credentials_addWalletInfo (Credentials_deriveSharedKey E)
                                              (objects st3 a) (Some (w_id w)) (Some (w_name w))
                                              (Some (w_m w)) (Some (w_n w)) None
                                              (Some (cp_name me))) st3))
                        else (Inr True, st3)))"


text \<open>
  \<open>API.prototype.getStatus\<close>. The result object is the server's, rewritten in place;
  \<open>result.wallet.status\<close> throws when the body has no wallet.
\<close>

definition getStatus ::
  "('srv, 'd) env \<Rightarrow> 'srv api \<Rightarrow> (error + resp_obj) \<times> 'srv api" where
  "getStatus E st =
     (case credentials st of
        None \<Rightarrow> (Inl StateError, st)
      | Some a \<Rightarrow>
          case doGetRequest E ''/v1/wallets/'' st of
            (Inl err, st1) \<Rightarrow> (Inl err, st1)
          | (Inr result, st1) \<Rightarrow>
              (case result of
                 BObject ob \<Rightarrow>
                   (case o_wallet ob of
                      None \<Rightarrow> (Inl TypeError, st1)
                    | Some w \<Rightarrow>
                        let cred = objects st1 a;
                            w1 = (if w_status w = ''pending''
                                  then w\<lparr>w_secret := Some (WalletUtils_toSecret E (walletId cred)
                                                            (walletPrivKey cred) (network cred))\<rparr>
                                  else w)
                        in (Inr (ob\<lparr>o_wallet := Some w1,
                                     o_pendingTxps := API_processTxps E (o_pendingTxps ob)
                                                        (sharedEncryptingKey cred)\<rparr>), st1))
               | _ \<Rightarrow> (Inl TypeError, st1)))"

section \<open>Transaction proposals\<close>

record send_opts =
  o_toAddress :: string
  o_amount :: int
  o_msg :: "string option"

text \<open>
  \<open>API.prototype.sendTxProposal\<close>. The amount is a number by its type. The signature is
  made over the hash of the address, the amount and the encrypted message.
\<close>

definition sendTxProposal ::
  "('srv, 'd) env \<Rightarrow> send_opts \<Rightarrow> 'srv api \<Rightarrow> (error + resp_body) \<times> 'srv api" where
  "sendTxProposal E opts st =
     (case credentials st of
        None \<Rightarrow> (Inl StateError, st)
      | Some a \<Rightarrow>
          if \<not> Credentials_isComplete (objects st a) then (Inl StateError, st)
          else
            let (msg, st1) = API_encryptMessage E (o_msg opts)
                               (sharedEncryptingKey (objects st a)) st;
                hash = WalletUtils_getProposalHash E (o_toAddress opts) (o_amount opts) msg;
                sig = WalletUtils_signMessage E hash (requestPrivKey (objects st1 a))
            in doPostRequest E ''/v1/txproposals/''
                 (TxProposalArgs (o_toAddress opts) (o_amount opts) msg sig) st1)"

record txps_opts =
  doNotVerify :: bool
  forAirGapped :: bool

record airgapped_bundle =
  b_txps :: "txp list option"
  encryptedPkr :: string
  b_m :: "int option"
  b_n :: "int option"

datatype txps_result =
    Txps "txp list option"
  | AirGapped airgapped_bundle

text \<open>
  \<open>API.prototype.getTxProposals\<close>. \<open>_.any\<close> is true when the test holds of some
  proposal of the list; the test sees the proposals as \<open>_processTxps\<close> left them. The
  air-gapped result carries a deep copy of the proposals, as a value the list itself.
\<close>

definition getTxProposals ::
  "('srv, 'd) env \<Rightarrow> txps_opts \<Rightarrow> 'srv api \<Rightarrow> (error + txps_result) \<times> 'srv api" where
  "getTxProposals E opts st =
     (case credentials st of
        None \<Rightarrow> (Inl StateError, st)
      | Some a \<Rightarrow>
          if \<not> Credentials_isComplete (objects st a) then (Inl StateError, st)
          else case doGetRequest E ''/v1/txproposals/'' st of
            (Inl err, st1) \<Rightarrow> (Inl err, st1)
          | (Inr body, st1) \<Rightarrow>
              (case body_txps body of
                 Inl e \<Rightarrow> (Inl e, st1)
               | Inr raw \<Rightarrow>
                   let cred = objects st1 a;
                       txps = API_processTxps E raw (sharedEncryptingKey cred);
                       fake = (case txps of
                                 None \<Rightarrow> False
                               | Some l \<Rightarrow>
                                   list_ex (\<lambda>t. \<not> doNotVerify opts \<and>
                                                \<not> Verifier_checkTxProposal E cred t) l)
                   in if fake
                      then (Inl (ServerCompromisedError ''Server sent fake transaction proposal''), st1)
                      else if forAirGapped opts
                      then let (r, st2) = draw st1
                           in (Inr (AirGapped
                                 \<lparr>b_txps = txps,
                                  encryptedPkr =
                                    WalletUtils_encryptMessage E r
                                      (JSON_stringify_ring E (publicKeyRing cred))
                                      (Some (personalEncryptingKey cred)),
                                  b_m = cred_m cred, b_n = cred_n cred\<rparr>), st2)
                      else (Inr (Txps txps), st1)))"

text \<open>\<open>API.prototype.getSignatures\<close>.\<close>

definition getSignatures ::
  "('srv, 'd) env \<Rightarrow> txp \<Rightarrow> 'srv api \<Rightarrow> (error + string list) \<times> 'srv api" where
  "getSignatures E t st =
     (case credentials st of
        None \<Rightarrow> (Inl StateError, st)
      | Some a \<Rightarrow>
          if \<not> Credentials_isComplete (objects st a) then (Inl StateError, st)
          else if \<not> truthy (creatorId t) then (Inl ArgumentError, st)
          else if \<not> canSign st
          then (Inl (Message ''You do not have the required keys to sign transactions''), st)
          else if \<not> Verifier_checkTxProposal E (objects st a) t
          then (Inl (ServerCompromisedError ''Transaction proposal is invalid''), st)
          else (Inr (WalletUtils_signTxp E t (xPrivKey (objects st a))), st))"

text \<open>
  \<open>API.prototype.signTxProposal\<close>. Signatures already attached to the proposal are
  submitted as they are; otherwise they are computed with the local key.
\<close>

definition signTxProposal ::
  "('srv, 'd) env \<Rightarrow> txp \<Rightarrow> 'srv api \<Rightarrow> (error + resp_body) \<times> 'srv api" where
  "signTxProposal E t st =
     (case credentials st of
        None \<Rightarrow> (Inl StateError, st)
      | Some a \<Rightarrow>
          if \<not> Credentials_isComplete (objects st a) then (Inl StateError, st)
          else if \<not> truthy (creatorId t) then (Inl ArgumentError, st)
          else if \<not> canSign st \<and> signatures t = None
          then (Inl (Error ''You do not have the required keys to sign transactions''), st)
          else if \<not> Verifier_checkTxProposal E (objects st a) t
          then (Inl (ServerCompromisedError ''Server sent fake transaction proposal''), st)
          else
            let sigs = (case signatures t of
                          Some s \<Rightarrow> s
                        | None \<Rightarrow> WalletUtils_signTxp E t (xPrivKey (objects st a)));
                url = ''/v1/txproposals/'' @ t_id t @ ''/signatures/''
            in doPostRequest E url (SignaturesArgs sigs) st)"

text \<open>
  The \<open>try\<close> block of \<open>signTxProposalFromAirGapped\<close>: the transported ring, decrypted
  with the personal key and parsed; \<open>None\<close> when either step throws.
\<close>

definition decryptedRing ::
  "('srv, 'd) env \<Rightarrow> Credentials \<Rightarrow> string \<Rightarrow> parsed_ring option" where
  "decryptedRing E c encPkr =
     (case WalletUtils_decryptMessage E encPkr (Some (personalEncryptingKey c)) of
        None \<Rightarrow> None
      | Some plain \<Rightarrow> JSON_parse_ring E plain)"

text \<open>The test \<open>_.isArray(publicKeyRing) && publicKeyRing.length == n\<close>.\<close>

definition validRing :: "parsed_ring \<Rightarrow> int \<Rightarrow> bool" where
  "validRing v n = (case v of PArray ring \<Rightarrow> int (length ring) = n | PNotArray \<Rightarrow> False)"

text \<open>\<open>API.prototype.signTxProposalFromAirGapped\<close>: every failure is thrown.\<close>

definition signTxProposalFromAirGapped ::
  "('srv, 'd) env \<Rightarrow> txp \<Rightarrow> string \<Rightarrow> int \<Rightarrow> int \<Rightarrow> 'srv api \<Rightarrow>
     (error + string list) \<times> 'srv api" where
  "signTxProposalFromAirGapped E t encPkr m n st =
     (case credentials st of
        None \<Rightarrow> (Inl StateError, st)
      | Some a \<Rightarrow>
          if \<not> canSign st
          then (Inl (Error ''You do not have the required keys to sign transactions''), st)
          else case decryptedRing E (objects st a) encPkr of
            None \<Rightarrow> (Inl (Error ''Could not decrypt public key ring''), st)
          | Some v \<Rightarrow>
              if \<not> validRing v n then (Inl (Error ''Invalid public key ring''), st)
              else
                let ring = (case v of PArray r \<Rightarrow> r | PNotArray \<Rightarrow> []);
                    st1 = store a ((objects st a)\<lparr>cred_m := Some m\<rparr>) st;
                    st2 = store a ((objects st1 a)\<lparr>cred_n := Some n\<rparr>) st1;
                    st3 = store a (Credentials_addPublicKeyRing (objects st2 a) ring) st2
                in if \<not> Verifier_checkTxProposal E (objects st3 a) t
                   then (Inl (Error ''Fake transaction proposal''), st3)
                   else (Inr (WalletUtils_signTxp E t (xPrivKey (objects st3 a))), st3))"

text \<open>\<open>API.prototype.getTxHistory\<close>.\<close>

definition getTxHistory ::
  "('srv, 'd) env \<Rightarrow> 'srv api \<Rightarrow> (error + txp list option) \<times> 'srv api" where
  "getTxHistory E st =
     (case credentials st of
        None \<Rightarrow> (Inl StateError, st)
      | Some a \<Rightarrow>
          if \<not> Credentials_isComplete (objects st a) then (Inl StateError, st)
          else case doGetRequest E ''/v1/txhistory/'' st of
            (Inl err, st1) \<Rightarrow> (Inl err, st1)
          | (Inr body, st1) \<Rightarrow>
              (case body_txps body of
                 Inl e \<Rightarrow> (Inl e, st1)
               | Inr txs \<Rightarrow>
                   (Inr (API_processTxps E txs (sharedEncryptingKey (objects st1 a))), st1)))"

section \<open>A concrete instance of the collaborators\<close>

text \<open>
  To run the client on concrete inputs the collaborators need values. The instance
  below is symbolic: a serialised credential set is a term, a password-encrypted document
  is the document sealed under the password and the draw, and the message cipher
  prefixes the key and one star per unit of the draw. The coordination service is a
  script: it answers the requests with the responses of a list, in order.
\<close>

datatype document =
    Json Credentials
  | Compressed Credentials
  | Sealed string nat document

fun ex_sjcl_decrypt :: "string \<Rightarrow> document \<Rightarrow> string + document" where
  "ex_sjcl_decrypt pw (Sealed pw' r d) = (if pw = pw' then Inr d else Inl ''CORRUPT'')"
| "ex_sjcl_decrypt pw d = Inl ''INVALID''"

fun ex_importCompressed :: "document \<Rightarrow> Credentials option" where
  "ex_importCompressed (Compressed c) = Some c"
| "ex_importCompressed d = None"

fun ex_fromObj_JSON_parse :: "document \<Rightarrow> Credentials option" where
  "ex_fromObj_JSON_parse (Json c) = Some c"
| "ex_fromObj_JSON_parse d = None"

definition ex_encryptMessage :: "nat \<Rightarrow> string \<Rightarrow> string option \<Rightarrow> string" where
  "ex_encryptMessage r plain k = js_str k @ replicate r (CHR ''*'') @ ''|'' @ plain"

definition ex_decryptMessage :: "string \<Rightarrow> string option \<Rightarrow> string option" where
  "ex_decryptMessage c k =
     (let pre = js_str k;
          rest = dropWhile (\<lambda>x. x = CHR ''*'') (drop (length pre) c)
      in if take (length pre) c = pre \<and> rest \<noteq> [] \<and> hd rest = CHR ''|''
         then Some (tl rest) else None)"

definition ex_signMessage :: "string \<Rightarrow> string option \<Rightarrow> string" where
  "ex_signMessage msg k = js_str k @ '':'' @ msg"

definition ex_getProposalHash :: "string \<Rightarrow> int \<Rightarrow> string option \<Rightarrow> string" where
  "ex_getProposalHash addr amt msg =
     addr @ ''|'' @ replicate (nat amt) (CHR ''1'') @ ''|'' @ (case msg of None \<Rightarrow> [] | Some s \<Rightarrow> s)"

definition ex_toSecret :: "string option \<Rightarrow> string option \<Rightarrow> string \<Rightarrow> string" where
  "ex_toSecret wid wpk net = js_str wid @ ''/'' @ js_str wpk @ ''/'' @ net"

definition ex_signTxp :: "txp \<Rightarrow> string option \<Rightarrow> string list" where
  "ex_signTxp t k = [js_str k @ '':'' @ t_id t]"

text \<open>The example verifier accepts a copayer list that contains the local key.\<close>

definition ex_checkCopayers :: "Credentials \<Rightarrow> copayer list \<Rightarrow> bool" where
  "ex_checkCopayers c cps = (xPubKey c \<in> set (map cp_xPubKey cps))"

text \<open>
  The example verifier accepts a proposal whose signature is the creator's over the hash
  of address, amount and encrypted message, the creator being a member of the ring.
\<close>

definition ex_checkTxProposal :: "Credentials \<Rightarrow> txp \<Rightarrow> bool" where
  "ex_checkTxProposal c t =
     (js_str (creatorId t) \<in> set (publicKeyRing c) \<and>
      proposalSignature t =
        ex_signMessage (ex_getProposalHash (toAddress t) (amount t) (encryptedMessage t))
          (creatorId t))"

definition ex_create :: "nat \<Rightarrow> string \<Rightarrow> Credentials" where
  "ex_create r net =
     \<lparr>network = net, xPrivKey = Some (''xprv'' @ replicate r (CHR ''*'')),
      xPubKey = ''xpub'' @ replicate r (CHR ''*''),
      requestPrivKey = Some (''rk'' @ replicate r (CHR ''*'')),
      copayerId = ''id'' @ replicate r (CHR ''*''),
      personalEncryptingKey = ''pk'' @ replicate r (CHR ''*''),
      walletPrivKey = None, sharedEncryptingKey = None, walletId = None, walletName = None,
      cred_m = None, cred_n = None, copayerName = None, publicKeyRing = []\<rparr>"

fun split_on :: "char \<Rightarrow> string \<Rightarrow> string list" where
  "split_on d [] = [] # []"
| "split_on d (c # cs) =
     (if c = d then [] # split_on d cs
      else case split_on d cs of
             [] \<Rightarrow> [c] # []
           | x # xs \<Rightarrow> (c # x) # xs)"

definition ex_stringify_ring :: "string list \<Rightarrow> string" where
  "ex_stringify_ring ks = concat (map (\<lambda>k. k @ '';'') ks)"

definition ex_parse_ring :: "string \<Rightarrow> parsed_ring option" where
  "ex_parse_ring s =
     (if s = ''null'' then Some PNotArray
      else if s \<noteq> [] \<and> last s \<noteq> CHR '';'' then None
      else Some (PArray (butlast (split_on (CHR '';'') s))))"

fun ex_stringify_args :: "req_args \<Rightarrow> string" where
  "ex_stringify_args NoArgs = ''{}''"
| "ex_stringify_args (WalletArgs nm m n pub net) = ''{wallet:'' @ nm @ '','' @ pub @ '','' @ net @ ''}''"
| "ex_stringify_args (CopayerArgs wid nm xpub sig) = ''{copayer:'' @ nm @ '','' @ xpub @ '','' @ sig @ ''}''"
| "ex_stringify_args (TxProposalArgs addr amt msg sig) = ''{txp:'' @ addr @ '','' @ sig @ ''}''"
| "ex_stringify_args (SignaturesArgs sigs) = ''{signatures:'' @ concat sigs @ ''}''"

type_synonym script = "transport_result list"

fun ex_request :: "script \<Rightarrow> http_request \<Rightarrow> transport_result \<times> script" where
  "ex_request [] req = (NetError ''ECONNREFUSED'', [])"
| "ex_request (r # rs) req = (r, rs)"

definition ex_env :: "(script, document) env" where
  "ex_env =
     \<lparr>request = ex_request,
      WalletUtils_encryptMessage = ex_encryptMessage,
      WalletUtils_decryptMessage = ex_decryptMessage,
      WalletUtils_signMessage = ex_signMessage,
      WalletUtils_getProposalHash = ex_getProposalHash,
      WalletUtils_toSecret = ex_toSecret,
      WalletUtils_signTxp = ex_signTxp,
      Verifier_checkCopayers = ex_checkCopayers,
      Verifier_checkTxProposal = ex_checkTxProposal,
      Credentials_create = ex_create,
      Credentials_deriveSharedKey = (\<lambda>k. ''shared-'' @ k),
      Credentials_exportCompressed = Compressed,
      Credentials_importCompressed = ex_importCompressed,
      JSON_stringify_toObj = Json,
      Credentials_fromObj_JSON_parse = ex_fromObj_JSON_parse,
      sjcl_encrypt = (\<lambda>r pw d. Sealed pw r d),
      sjcl_decrypt = ex_sjcl_decrypt,
      PrivateKey_new = (\<lambda>r. ''wk'' @ replicate r (CHR ''*'')),
      PrivateKey_toPublicKey = (\<lambda>k. ''pub-'' @ k),
      JSON_stringify_args = ex_stringify_args,
      JSON_stringify_ring = ex_stringify_ring,
      JSON_parse_ring = ex_parse_ring,
      JSON_parse_body = (\<lambda>s. None)\<rparr>"

text \<open>
  Alice, copayer of the complete 2-of-2 wallet \<open>w1\<close> with Bob, and the same credential
  set after a no-sign export and import.
\<close>

definition alice :: Credentials where
  "alice =
     \<lparr>network = ''testnet'', xPrivKey = Some ''xprvA'', xPubKey = ''xpubA'',
      requestPrivKey = Some ''rkA'', copayerId = ''idA'', personalEncryptingKey = ''pkA'',
      walletPrivKey = Some ''wk'', sharedEncryptingKey = Some ''sk'',
      walletId = Some ''w1'', walletName = Some ''fam'', cred_m = Some 2, cred_n = Some 2,
      copayerName = Some ''alice'', publicKeyRing = [''xpubA'', ''xpubB'']\<rparr>"

definition alice_nosign :: Credentials where
  "alice_nosign = alice\<lparr>xPrivKey := None\<rparr>"

text \<open>A client that holds the credential set \<open>c\<close> and faces the script \<open>srv\<close>.\<close>

definition client :: "Credentials \<Rightarrow> script \<Rightarrow> script api" where
  "client c srv =
     \<lparr>credentials = Some 0, objects = (\<lambda>a. c), fresh = 1,
      baseUrl = ''http://localhost:3001/copay/api'', basePath = ''/copay/api'',
      server = srv, sent = [], entropy = 0, warnings = []\<rparr>"


text \<open>
  Bob's proposal to pay 3 to \<open>addr1\<close> with the message \<open>hi\<close> encrypted under the shared
  key, correctly signed; and the same proposal with the amount changed by the server.
\<close>

definition good_txp :: txp where
  "good_txp =
     \<lparr>t_id = ''t1'', creatorId = Some ''xpubB'', toAddress = ''addr1'', amount = 3,
      message = Some ''sk|hi'', encryptedMessage = None,
      proposalSignature = ''xpubB:addr1|111|sk|hi'', signatures = None, actions = []\<rparr>"

definition forged_txp :: txp where
  "forged_txp = good_txp\<lparr>t_id := ''t2'', amount := 5\<rparr>"

text \<open>A proposal whose message and whose action comment were encrypted under another key.\<close>

definition foreign_txp :: txp where
  "foreign_txp =
     \<lparr>t_id = ''t3'', creatorId = Some ''xpubB'', toAddress = ''addr1'', amount = 3,
      message = Some ''zz|hi'', encryptedMessage = None,
      proposalSignature = ''xpubB:addr1|111|zz|hi'', signatures = None,
      actions = [\<lparr>a_copayerId = ''idB'', a_type = ''reject'', comment = Some ''zz|no''\<rparr>]\<rparr>"

text \<open>
  Bob's proposal as \<open>getTxProposals\<close> hands it over, the forged one likewise, and the
  first with signatures made elsewhere attached to it.
\<close>

definition fetched_txp :: txp where
  "fetched_txp = processTxp ex_env (Some ''sk'') good_txp"

definition fetched_forged_txp :: txp where
  "fetched_forged_txp = processTxp ex_env (Some ''sk'') forged_txp"

definition presigned_txp :: txp where
  "presigned_txp = fetched_txp\<lparr>signatures := Some [''xprvA:t1'']\<rparr>"


definition wallet_w1 :: wallet where
  "wallet_w1 =
     \<lparr>w_id = ''w1'', w_name = ''fam'', w_m = 2, w_n = 2, w_status = ''complete'',
      w_copayers = [\<lparr>cp_id = ''idA'', cp_name = ''alice'', cp_xPubKey = ''xpubA''\<rparr>,
                    \<lparr>cp_id = ''idB'', cp_name = ''bob'', cp_xPubKey = ''xpubB''\<rparr>],
      w_secret = None\<rparr>"

definition wallet_body :: "wallet \<Rightarrow> resp_body" where
  "wallet_body w =
     BObject \<lparr>o_walletId = None, o_wallet = Some w, o_pendingTxps = None,
              o_code = None, o_message = None, o_error = None\<rparr>"

definition wallet_strangers :: wallet where
  "wallet_strangers =
     wallet_w1\<lparr>w_copayers := [\<lparr>cp_id = ''idM'', cp_name = ''mallory'', cp_xPubKey = ''xpubM''\<rparr>,
                               \<lparr>cp_id = ''idB'', cp_name = ''bob'', cp_xPubKey = ''xpubB''\<rparr>]\<rparr>"

definition wallet_pending :: wallet where
  "wallet_pending = wallet_w1\<lparr>w_status := ''pending''\<rparr>"

text \<open>
  Alice after joining \<open>w1\<close> and before the wallet is complete, with the wallet-level
  key (she created the wallet) and without it.
\<close>

definition alice_pending :: Credentials where
  "alice_pending = alice\<lparr>publicKeyRing := [''xpubA'']\<rparr>"

definition alice_pending_nokey :: Credentials where
  "alice_pending_nokey = alice_pending\<lparr>walletPrivKey := None\<rparr>"

definition hi_opts :: send_opts where
  "hi_opts = \<lparr>o_toAddress = ''addr1'', o_amount = 3, o_msg = Some ''hi''\<rparr>"

definition silent_opts :: send_opts where
  "silent_opts = \<lparr>o_toAddress = ''addr1'', o_amount = 3, o_msg = None\<rparr>"

text \<open>Alice's identity in another wallet: the same request key, another shared key.\<close>

definition alice_elsewhere :: Credentials where
  "alice_elsewhere = alice\<lparr>sharedEncryptingKey := Some ''sk2'', walletId := Some ''w2''\<rparr>"

section \<open>What a request leaves alone\<close>

lemma doRequest_frame:
  "doRequest E meth url args st = (r, st1) \<Longrightarrow>
     credentials st1 = credentials st \<and> objects st1 = objects st \<and> fresh st1 = fresh st \<and>
     entropy st1 = entropy st \<and> warnings st1 = warnings st"
  by (auto simp: doRequest_def Let_def
        split: option.splits prod.splits transport_result.splits if_splits)

lemma doGetRequest_frame:
  "doGetRequest E url st = (r, st1) \<Longrightarrow>
     credentials st1 = credentials st \<and> objects st1 = objects st \<and> fresh st1 = fresh st \<and>
     entropy st1 = entropy st \<and> warnings st1 = warnings st"
  unfolding doGetRequest_def by (rule doRequest_frame)

lemma doPostRequest_frame:
  "doPostRequest E url args st = (r, st1) \<Longrightarrow>
     credentials st1 = credentials st \<and> objects st1 = objects st \<and> fresh st1 = fresh st \<and>
     entropy st1 = entropy st \<and> warnings st1 = warnings st"
  unfolding doPostRequest_def by (rule doRequest_frame)

text \<open>A request that the service answers with status 200 hands its body to the callback.\<close>

lemma doRequest_200:
  assumes "credentials st = Some a"
    and "req = \<lparr>relUrl = basePath st @ url, x_identity = copayerId (objects st a),
                 x_signature =
                   (if truthy (requestPrivKey (objects st a))
                    then Some (API_signRequest E meth url args
                                 (js_str (requestPrivKey (objects st a))))
                    else None),
                 req_method = meth, req_url = baseUrl st @ url, req_body = args\<rparr>"
    and "request E (server st) req = (Response 200 body, srv)"
  shows "doRequest E meth url args st = (Inr body, st\<lparr>server := srv, sent := sent st @ [req]\<rparr>)"
  using assms by (simp add: doRequest_def Let_def)

text \<open>The example client's first request to a scripted service.\<close>

lemma client_credentials: "credentials (client c srv) = Some 0"
  by (simp add: client_def)

lemma client_objects: "objects (client c srv) a = c"
  by (simp add: client_def)

lemma client_doGetRequest:
  "doGetRequest ex_env url (client c (Response 200 body # rest)) =
     (Inr body, snd (doGetRequest ex_env url (client c (Response 200 body # rest))))"
  by (simp add: doGetRequest_def doRequest_def client_def ex_env_def Let_def)

lemma alice_complete: "Credentials_isComplete alice"
  by (simp add: alice_def Credentials_isComplete_def Credentials_hasWalletInfo_def truthy_def)

lemma alice_sharedEncryptingKey: "sharedEncryptingKey alice = Some ''sk''"
  by (simp add: alice_def)

section \<open>Fetching proposals fails closed\<close>

text \<open>
  C1. When the fetch of \<open>getTxProposals\<close> returns a list of proposals and verification
  is enabled (\<open>doNotVerify\<close> false), one proposal that fails \<open>Verifier.checkTxProposal\<close>
  (so in particular exactly one) fails the whole call with the
  \<open>ServerCompromisedError\<close>, and no proposal is returned. With \<open>doNotVerify\<close> true the
  whole batch is returned unverified, as \<open>_processTxps\<close> left it (alone, or inside the
  air-gapped bundle).
\<close>

theorem getTxProposals_fail_closed:
  assumes cred: "credentials st = Some a"
    and complete: "Credentials_isComplete (objects st a)"
    and fetch: "doGetRequest E ''/v1/txproposals/'' st = (Inr (BTxps raw), st1)"
    and processed: "processed = map (processTxp E (sharedEncryptingKey (objects st a))) raw"
  shows "(\<not> doNotVerify opts \<and>
            (\<exists>t \<in> set processed. \<not> Verifier_checkTxProposal E (objects st a) t) \<longrightarrow>
          getTxProposals E opts st =
            (Inl (ServerCompromisedError ''Server sent fake transaction proposal''), st1)) \<and>
         (doNotVerify opts \<and> \<not> forAirGapped opts \<longrightarrow>
          getTxProposals E opts st = (Inr (Txps (Some processed)), st1)) \<and>
         (doNotVerify opts \<and> forAirGapped opts \<longrightarrow>
          (\<exists>b st2. getTxProposals E opts st = (Inr (AirGapped b), st2) \<and>
                    b_txps b = Some processed))"
proof -
  from doGetRequest_frame [OF fetch] have obj: "objects st1 a = objects st a" by simp
  show ?thesis
    using cred complete fetch
    by (auto simp: getTxProposals_def body_txps_def API_processTxps_def obj processed
          list_ex_iff Let_def split: prod.splits)
qed

theorem getTxProposals_fail_closed_witness:
  "Credentials_isComplete alice \<and>
   \<not> Verifier_checkTxProposal ex_env alice (processTxp ex_env (Some ''sk'') forged_txp) \<and>
   fst (getTxProposals ex_env \<lparr>doNotVerify = False, forAirGapped = False\<rparr>
          (client alice [Response 200 (BTxps [good_txp, forged_txp])])) =
     Inl (ServerCompromisedError ''Server sent fake transaction proposal'') \<and>
   fst (getTxProposals ex_env \<lparr>doNotVerify = True, forAirGapped = False\<rparr>
          (client alice [Response 200 (BTxps [good_txp, forged_txp])])) =
     Inr (Txps (Some [processTxp ex_env (Some ''sk'') good_txp,
                      processTxp ex_env (Some ''sk'') forged_txp]))"
proof -
  let ?st = "client alice [Response 200 (BTxps [good_txp, forged_txp])]"
  have complete: "Credentials_isComplete (objects ?st 0)"
    by (simp add: client_objects alice_complete)
  have bad: "\<not> Verifier_checkTxProposal ex_env alice (processTxp ex_env (Some ''sk'') forged_txp)"
    by code_simp
  note main = getTxProposals_fail_closed [OF client_credentials complete client_doGetRequest refl]
  from main [of "\<lparr>doNotVerify = False, forAirGapped = False\<rparr>"] bad
  have 1: "fst (getTxProposals ex_env \<lparr>doNotVerify = False, forAirGapped = False\<rparr> ?st) =
       Inl (ServerCompromisedError ''Server sent fake transaction proposal'')"
    by (simp add: client_objects alice_sharedEncryptingKey)
  from main [of "\<lparr>doNotVerify = True, forAirGapped = False\<rparr>"]
  have 2: "fst (getTxProposals ex_env \<lparr>doNotVerify = True, forAirGapped = False\<rparr> ?st) =
       Inr (Txps (Some [processTxp ex_env (Some ''sk'') good_txp,
                        processTxp ex_env (Some ''sk'') forged_txp]))"
    by (simp add: client_objects alice_sharedEncryptingKey)
  show ?thesis using alice_complete bad 1 2 by simp
qed

section \<open>Undecryptable messages\<close>

lemma API_decryptMessage_cases:
  "(\<not> truthy msg \<longrightarrow> API_decryptMessage E msg k = []) \<and>
   (truthy msg \<and> WalletUtils_decryptMessage E (js_str msg) k = None \<longrightarrow>
      API_decryptMessage E msg k = ''<ECANNOTDECRYPT>'') \<and>
   (truthy msg \<and> WalletUtils_decryptMessage E (js_str msg) k = Some plain \<longrightarrow>
      API_decryptMessage E msg k = plain)"
  by (simp add: API_decryptMessage_def)

lemma processTxp_fields:
  "t_id (processTxp E k t) = t_id t \<and> creatorId (processTxp E k t) = creatorId t \<and>
   toAddress (processTxp E k t) = toAddress t \<and> amount (processTxp E k t) = amount t \<and>
   proposalSignature (processTxp E k t) = proposalSignature t \<and>
   signatures (processTxp E k t) = signatures t \<and>
   encryptedMessage (processTxp E k t) = message t \<and>
   map a_copayerId (actions (processTxp E k t)) = map a_copayerId (actions t) \<and>
   map a_type (actions (processTxp E k t)) = map a_type (actions t)"
  by (simp add: processTxp_def processAction_def comp_def)

lemma processTxp_texts:
  "message (processTxp E k t) = Some (API_decryptMessage E (message t) k) \<and>
   map comment (actions (processTxp E k t)) =
     map (\<lambda>a. Some (API_decryptMessage E (comment a) k)) (actions t)"
  by (simp add: processTxp_def processAction_def comp_def)

lemma getTxHistory_fetch:
  assumes "credentials st = Some a" and "Credentials_isComplete (objects st a)"
    and fetch: "doGetRequest E ''/v1/txhistory/'' st = (Inr (BTxps raw), st1)"
  shows "getTxHistory E st =
           (Inr (Some (map (processTxp E (sharedEncryptingKey (objects st a))) raw)), st1)"
proof -
  from doGetRequest_frame [OF fetch] have "objects st1 a = objects st a" by simp
  with assms show ?thesis
    by (simp add: getTxHistory_def body_txps_def API_processTxps_def)
qed

lemma getTxProposals_fetch:
  assumes "credentials st = Some a" and "Credentials_isComplete (objects st a)"
    and fetch: "doGetRequest E ''/v1/txproposals/'' st = (Inr (BTxps raw), st1)"
    and passes: "doNotVerify opts \<or>
       list_all (Verifier_checkTxProposal E (objects st a))
         (map (processTxp E (sharedEncryptingKey (objects st a))) raw)"
  shows "getTxProposals E opts st =
           (if forAirGapped opts
            then (Inr (AirGapped
                    \<lparr>b_txps = Some (map (processTxp E (sharedEncryptingKey (objects st a))) raw),
                     encryptedPkr =
                       WalletUtils_encryptMessage E (entropy st1)
                         (JSON_stringify_ring E (publicKeyRing (objects st a)))
                         (Some (personalEncryptingKey (objects st a))),
                     b_m = cred_m (objects st a), b_n = cred_n (objects st a)\<rparr>),
                  st1\<lparr>entropy := Suc (entropy st1)\<rparr>)
            else (Inr (Txps (Some (map (processTxp E (sharedEncryptingKey (objects st a))) raw))),
                  st1))"
proof -
  from doGetRequest_frame [OF fetch] have "objects st1 a = objects st a" by simp
  with assms show ?thesis
    by (auto simp: getTxProposals_def body_txps_def API_processTxps_def Let_def draw_def
          list_ex_iff list_all_iff)
qed

lemma getStatus_fetch:
  assumes "credentials st = Some a"
    and fetch: "doGetRequest E ''/v1/wallets/'' st = (Inr (BObject ob), st1)"
    and "o_wallet ob = Some w"
  shows "getStatus E st =
           (Inr (ob\<lparr>o_wallet :=
                      Some (if w_status w = ''pending''
                            then w\<lparr>w_secret :=
                                     Some (WalletUtils_toSecret E (walletId (objects st a))
                                             (walletPrivKey (objects st a))
                                             (network (objects st a)))\<rparr>
                            else w),
                    o_pendingTxps :=
                      map_option (map (processTxp E (sharedEncryptingKey (objects st a))))
                        (o_pendingTxps ob)\<rparr>),
            st1)"
proof -
  from doGetRequest_frame [OF fetch] have "objects st1 a = objects st a" by simp
  with assms show ?thesis
    by (auto simp: getStatus_def API_processTxps_def Let_def split: option.splits)
qed

text \<open>
  C9. A message or an action comment that fails to decrypt becomes the placeholder
  \<open><ECANNOTDECRYPT>\<close>, a missing or empty one becomes the empty string, and one that
  decrypts becomes its plaintext. Nothing else of a proposal changes, except that the
  wire message is kept as \<open>encryptedMessage\<close>. Whatever the decryption does, the fetch
  operations return the rest of the result as it is: \<open>getTxHistory\<close> returns every
  fetched entry, \<open>getTxProposals\<close> (verification skipped, or passed by every proposal)
  returns every fetched proposal, alone or in the air-gapped bundle with the encrypted
  ring and m and n, and \<open>getStatus\<close> returns the service's object with its wallet (and
  the invite secret while the wallet is pending) and its pending proposals, each
  proposal processed this way.
\<close>

theorem undecryptable_message_placeholder:
  "(truthy msg \<and> WalletUtils_decryptMessage E (js_str msg) k = None \<longrightarrow>
      API_decryptMessage E msg k = ''<ECANNOTDECRYPT>'') \<and>
   (\<not> truthy msg \<longrightarrow> API_decryptMessage E msg k = []) \<and>
   (truthy msg \<and> WalletUtils_decryptMessage E (js_str msg) k = Some plain \<longrightarrow>
      API_decryptMessage E msg k = plain) \<and>
   message (processTxp E k t) = Some (API_decryptMessage E (message t) k) \<and>
   map comment (actions (processTxp E k t)) =
     map (\<lambda>a. Some (API_decryptMessage E (comment a) k)) (actions t) \<and>
   encryptedMessage (processTxp E k t) = message t \<and>
   t_id (processTxp E k t) = t_id t \<and> creatorId (processTxp E k t) = creatorId t \<and>
   toAddress (processTxp E k t) = toAddress t \<and> amount (processTxp E k t) = amount t \<and>
   proposalSignature (processTxp E k t) = proposalSignature t \<and>
   signatures (processTxp E k t) = signatures t \<and>
   map a_copayerId (actions (processTxp E k t)) = map a_copayerId (actions t) \<and>
   map a_type (actions (processTxp E k t)) = map a_type (actions t) \<and>
   (credentials st = Some a \<and> Credentials_isComplete (objects st a) \<and>
    doGetRequest E ''/v1/txhistory/'' st = (Inr (BTxps raw), st1) \<longrightarrow>
      getTxHistory E st =
        (Inr (Some (map (processTxp E (sharedEncryptingKey (objects st a))) raw)), st1)) \<and>
   (credentials st = Some a \<and> Credentials_isComplete (objects st a) \<and>
    doGetRequest E ''/v1/txproposals/'' st = (Inr (BTxps raw), st1) \<and>
    (doNotVerify opts \<or>
     list_all (Verifier_checkTxProposal E (objects st a))
       (map (processTxp E (sharedEncryptingKey (objects st a))) raw)) \<longrightarrow>
      getTxProposals E opts st =
        (if forAirGapped opts
         then (Inr (AirGapped
                 \<lparr>b_txps = Some (map (processTxp E (sharedEncryptingKey (objects st a))) raw),
                  encryptedPkr =
                    WalletUtils_encryptMessage E (entropy st1)
                      (JSON_stringify_ring E (publicKeyRing (objects st a)))
                      (Some (personalEncryptingKey (objects st a))),
                  b_m = cred_m (objects st a), b_n = cred_n (objects st a)\<rparr>),
               st1\<lparr>entropy := Suc (entropy st1)\<rparr>)
         else (Inr (Txps (Some (map (processTxp E (sharedEncryptingKey (objects st a))) raw))),
               st1))) \<and>
   (credentials st = Some a \<and>
    doGetRequest E ''/v1/wallets/'' st = (Inr (BObject ob), st1) \<and> o_wallet ob = Some w \<longrightarrow>
      getStatus E st =
        (Inr (ob\<lparr>o_wallet :=
                   Some (if w_status w = ''pending''
                         then w\<lparr>w_secret :=
                                  Some (WalletUtils_toSecret E (walletId (objects st a))
                                          (walletPrivKey (objects st a))
                                          (network (objects st a)))\<rparr>
                         else w),
                 o_pendingTxps :=
                   map_option (map (processTxp E (sharedEncryptingKey (objects st a))))
                     (o_pendingTxps ob)\<rparr>),
         st1))"
proof (intro conjI impI; (elim conjE)?)
  show "API_decryptMessage E msg k = ''<ECANNOTDECRYPT>''"
    if "truthy msg" "WalletUtils_decryptMessage E (js_str msg) k = None"
    using that API_decryptMessage_cases [of msg E k] by simp
  show "API_decryptMessage E msg k = []" if "\<not> truthy msg"
    using that API_decryptMessage_cases [of msg E k] by simp
  show "API_decryptMessage E msg k = plain"
    if "truthy msg" "WalletUtils_decryptMessage E (js_str msg) k = Some plain"
    using that API_decryptMessage_cases [of msg E k plain] by simp
  show "message (processTxp E k t) = Some (API_decryptMessage E (message t) k)"
    "map comment (actions (processTxp E k t)) =
       map (\<lambda>a. Some (API_decryptMessage E (comment a) k)) (actions t)"
    using processTxp_texts [of E k t] by simp_all
  show "encryptedMessage (processTxp E k t) = message t"
    "t_id (processTxp E k t) = t_id t" "creatorId (processTxp E k t) = creatorId t"
    "toAddress (processTxp E k t) = toAddress t" "amount (processTxp E k t) = amount t"
    "proposalSignature (processTxp E k t) = proposalSignature t"
    "signatures (processTxp E k t) = signatures t"
    "map a_copayerId (actions (processTxp E k t)) = map a_copayerId (actions t)"
    "map a_type (actions (processTxp E k t)) = map a_type (actions t)"
    using processTxp_fields [of E k t] by simp_all
next
  assume "credentials st = Some a" "Credentials_isComplete (objects st a)"
    "doGetRequest E ''/v1/txhistory/'' st = (Inr (BTxps raw), st1)"
  then show "getTxHistory E st =
        (Inr (Some (map (processTxp E (sharedEncryptingKey (objects st a))) raw)), st1)"
    by (rule getTxHistory_fetch)
next
  assume "credentials st = Some a" "Credentials_isComplete (objects st a)"
    "doGetRequest E ''/v1/txproposals/'' st = (Inr (BTxps raw), st1)"
    "doNotVerify opts \<or>
     list_all (Verifier_checkTxProposal E (objects st a))
       (map (processTxp E (sharedEncryptingKey (objects st a))) raw)"
  then show "getTxProposals E opts st =
        (if forAirGapped opts
         then (Inr (AirGapped
                 \<lparr>b_txps = Some (map (processTxp E (sharedEncryptingKey (objects st a))) raw),
                  encryptedPkr =
                    WalletUtils_encryptMessage E (entropy st1)
                      (JSON_stringify_ring E (publicKeyRing (objects st a)))
                      (Some (personalEncryptingKey (objects st a))),
                  b_m = cred_m (objects st a), b_n = cred_n (objects st a)\<rparr>),
               st1\<lparr>entropy := Suc (entropy st1)\<rparr>)
         else (Inr (Txps (Some (map (processTxp E (sharedEncryptingKey (objects st a))) raw))),
               st1))"
    by (rule getTxProposals_fetch)
next
  assume "credentials st = Some a"
    "doGetRequest E ''/v1/wallets/'' st = (Inr (BObject ob), st1)" "o_wallet ob = Some w"
  then show "getStatus E st =
        (Inr (ob\<lparr>o_wallet :=
                   Some (if w_status w = ''pending''
                         then w\<lparr>w_secret :=
                                  Some (WalletUtils_toSecret E (walletId (objects st a))
                                          (walletPrivKey (objects st a))
                                          (network (objects st a)))\<rparr>
                         else w),
                 o_pendingTxps :=
                   map_option (map (processTxp E (sharedEncryptingKey (objects st a))))
                     (o_pendingTxps ob)\<rparr>),
         st1)"
    by (rule getStatus_fetch)
qed

theorem undecryptable_message_placeholder_witness:
  "WalletUtils_decryptMessage ex_env ''zz|hi'' (Some ''sk'') = None \<and>
   API_decryptMessage ex_env (Some ''zz|hi'') (Some ''sk'') = ''<ECANNOTDECRYPT>'' \<and>
   API_decryptMessage ex_env None (Some ''sk'') = [] \<and>
   WalletUtils_decryptMessage ex_env ''sk|hi'' (Some ''sk'') = Some ''hi'' \<and>
   API_decryptMessage ex_env (Some ''sk|hi'') (Some ''sk'') = ''hi'' \<and>
   fst (getTxHistory ex_env (client alice [Response 200 (BTxps [foreign_txp, good_txp])])) =
     Inr (Some [foreign_txp
                  \<lparr>message := Some ''<ECANNOTDECRYPT>'', encryptedMessage := Some ''zz|hi'',
                   actions := [\<lparr>a_copayerId = ''idB'', a_type = ''reject'',
                                comment = Some ''<ECANNOTDECRYPT>''\<rparr>]\<rparr>,
                good_txp\<lparr>message := Some ''hi'', encryptedMessage := Some ''sk|hi''\<rparr>]) \<and>
   fst (getTxProposals ex_env \<lparr>doNotVerify = True, forAirGapped = True\<rparr>
          (client alice [Response 200 (BTxps [foreign_txp, good_txp])])) =
     Inr (AirGapped
       \<lparr>b_txps =
          Some [foreign_txp
                  \<lparr>message := Some ''<ECANNOTDECRYPT>'', encryptedMessage := Some ''zz|hi'',
                   actions := [\<lparr>a_copayerId = ''idB'', a_type = ''reject'',
                                comment = Some ''<ECANNOTDECRYPT>''\<rparr>]\<rparr>,
                good_txp\<lparr>message := Some ''hi'', encryptedMessage := Some ''sk|hi''\<rparr>],
        encryptedPkr = ''pkA|xpubA;xpubB;'', b_m = Some 2, b_n = Some 2\<rparr>)"
proof -
  let ?st = "client alice [Response 200 (BTxps [foreign_txp, good_txp])]"
  let ?foreign = "foreign_txp
                  \<lparr>message := Some ''<ECANNOTDECRYPT>'', encryptedMessage := Some ''zz|hi'',
                   actions := [\<lparr>a_copayerId = ''idB'', a_type = ''reject'',
                                comment = Some ''<ECANNOTDECRYPT>''\<rparr>]\<rparr>"
  let ?good = "good_txp\<lparr>message := Some ''hi'', encryptedMessage := Some ''sk|hi''\<rparr>"
  have fails: "WalletUtils_decryptMessage ex_env ''zz|hi'' (Some ''sk'') = None"
    by code_simp
  have works: "WalletUtils_decryptMessage ex_env ''sk|hi'' (Some ''sk'') = Some ''hi''"
    by code_simp
  have p1: "processTxp ex_env (Some ''sk'') foreign_txp = ?foreign" by code_simp
  have p2: "processTxp ex_env (Some ''sk'') good_txp = ?good" by code_simp
  have pkr: "WalletUtils_encryptMessage ex_env 0
               (JSON_stringify_ring ex_env (publicKeyRing alice))
               (Some (personalEncryptingKey alice)) = ''pkA|xpubA;xpubB;''"
    by code_simp
  have mn: "cred_m alice = Some 2" "cred_n alice = Some 2" by (simp_all add: alice_def)
  have complete: "Credentials_isComplete (objects ?st 0)"
    by (simp add: client_objects alice_complete)
  have e1: "entropy (snd (doGetRequest ex_env url ?st)) = 0" for url
    using doGetRequest_frame [of ex_env url ?st "fst (doGetRequest ex_env url ?st)"
            "snd (doGetRequest ex_env url ?st)"]
    by (simp add: client_def)
  from undecryptable_message_placeholder
         [of "Some ''zz|hi''" ex_env "Some ''sk''" _ _ ?st 0 "[foreign_txp, good_txp]"
             "snd (doGetRequest ex_env ''/v1/txhistory/'' ?st)"]
    fails
  have 1: "API_decryptMessage ex_env (Some ''zz|hi'') (Some ''sk'') = ''<ECANNOTDECRYPT>''"
    and 2: "fst (getTxHistory ex_env ?st) = Inr (Some [?foreign, ?good])"
    using client_credentials [of alice] complete client_doGetRequest
    by (simp_all add: truthy_def js_str_def client_objects alice_sharedEncryptingKey p1 p2)
  from undecryptable_message_placeholder [of None ex_env "Some ''sk''"]
  have 3: "API_decryptMessage ex_env None (Some ''sk'') = []"
    by (simp add: truthy_def)
  from undecryptable_message_placeholder [of "Some ''sk|hi''" ex_env "Some ''sk''" "''hi''"] works
  have 4: "API_decryptMessage ex_env (Some ''sk|hi'') (Some ''sk'') = ''hi''"
    by (simp add: truthy_def js_str_def)
  from undecryptable_message_placeholder
         [where E = ex_env and st = ?st and a = 0 and raw = "[foreign_txp, good_txp]" and
            ?st1.0 = "snd (doGetRequest ex_env ''/v1/txproposals/'' ?st)" and
            opts = "\<lparr>doNotVerify = True, forAirGapped = True\<rparr>"]
  have 5: "fst (getTxProposals ex_env \<lparr>doNotVerify = True, forAirGapped = True\<rparr> ?st) =
     Inr (AirGapped
       \<lparr>b_txps = Some [?foreign, ?good],
        encryptedPkr = ''pkA|xpubA;xpubB;'', b_m = Some 2, b_n = Some 2\<rparr>)"
    using client_credentials [of alice] complete client_doGetRequest
    by (simp add: client_objects alice_sharedEncryptingKey p1 p2 e1 pkr mn)
  show ?thesis
    using fails works 1 2 3 4 5 by simp
qed

section \<open>Signing a proposal\<close>

lemma canSign_this: "credentials st = Some a \<Longrightarrow> canSign st = Credentials_canSign (objects st a)"
  by (simp add: canSign_def this_credentials_def)

lemma signTxProposal_rejected:
  assumes "credentials st = Some a" "Credentials_isComplete (objects st a)" "truthy (creatorId t)"
    and "canSign st \<or> signatures t \<noteq> None"
    and "\<not> Verifier_checkTxProposal E (objects st a) t"
  shows "signTxProposal E t st =
           (Inl (ServerCompromisedError ''Server sent fake transaction proposal''), st)"
  using assms by (auto simp: signTxProposal_def)

lemma signTxProposal_submits:
  assumes "credentials st = Some a" "Credentials_isComplete (objects st a)" "truthy (creatorId t)"
    and "canSign st \<or> signatures t \<noteq> None"
    and "Verifier_checkTxProposal E (objects st a) t"
  shows "map req_body (sent (snd (signTxProposal E t st))) =
           map req_body (sent st) @
           [SignaturesArgs (case signatures t of
                              Some s \<Rightarrow> s
                            | None \<Rightarrow> WalletUtils_signTxp E t (xPrivKey (objects st a)))]"
  using assms
  by (auto simp: signTxProposal_def doPostRequest_def doRequest_def Let_def
        split: prod.splits transport_result.splits option.splits)

lemma signTxProposal_sent:
  assumes "credentials st = Some a" "Credentials_isComplete (objects st a)" "truthy (creatorId t)"
    and "sent (snd (signTxProposal E t st)) \<noteq> sent st"
  shows "Verifier_checkTxProposal E (objects st a) t"
  using assms by (auto simp: signTxProposal_def split: if_splits)

text \<open>
  C2, as amended. On a complete credential set and a proposal that names its creator:
  \<open>getSignatures\<close> fails with an error when \<open>canSign()\<close> is false; \<open>signTxProposal\<close>
  fails with an error when \<open>canSign()\<close> is false and the proposal carries no signatures
  of its own. Past that guard both fail with the trust violation when
  \<open>Verifier.checkTxProposal\<close> is false, and the client is left as it was: nothing is
  computed and nothing is submitted. \<open>getSignatures\<close> returns signatures, and
  \<open>signTxProposal\<close> submits a request, only for a proposal that passes verification;
  what \<open>signTxProposal\<close> then submits are the signatures attached to the proposal, or
  else those computed with the local key.
\<close>

theorem signing_requires_key_and_verification:
  assumes cred: "credentials st = Some a"
    and complete: "Credentials_isComplete (objects st a)"
    and creator: "truthy (creatorId t)"
  shows "(\<not> canSign st \<longrightarrow>
            getSignatures E t st =
              (Inl (Message ''You do not have the required keys to sign transactions''), st)) \<and>
         (\<not> canSign st \<and> signatures t = None \<longrightarrow>
            signTxProposal E t st =
              (Inl (Error ''You do not have the required keys to sign transactions''), st)) \<and>
         (canSign st \<and> \<not> Verifier_checkTxProposal E (objects st a) t \<longrightarrow>
            getSignatures E t st =
              (Inl (ServerCompromisedError ''Transaction proposal is invalid''), st)) \<and>
         ((canSign st \<or> signatures t \<noteq> None) \<and> \<not> Verifier_checkTxProposal E (objects st a) t \<longrightarrow>
            signTxProposal E t st =
              (Inl (ServerCompromisedError ''Server sent fake transaction proposal''), st)) \<and>
         (\<forall>sigs st'. getSignatures E t st = (Inr sigs, st') \<longrightarrow>
            Verifier_checkTxProposal E (objects st a) t \<and> canSign st \<and> st' = st \<and>
            sigs = WalletUtils_signTxp E t (xPrivKey (objects st a))) \<and>
         (sent (snd (signTxProposal E t st)) \<noteq> sent st \<longrightarrow>
            Verifier_checkTxProposal E (objects st a) t) \<and>
         ((canSign st \<or> signatures t \<noteq> None) \<and> Verifier_checkTxProposal E (objects st a) t \<longrightarrow>
            map req_body (sent (snd (signTxProposal E t st))) =
              map req_body (sent st) @
              [SignaturesArgs (case signatures t of
                                 Some s \<Rightarrow> s
                               | None \<Rightarrow> WalletUtils_signTxp E t (xPrivKey (objects st a)))])"
proof -
  have gs: "(\<not> canSign st \<longrightarrow>
            getSignatures E t st =
              (Inl (Message ''You do not have the required keys to sign transactions''), st)) \<and>
         (canSign st \<and> \<not> Verifier_checkTxProposal E (objects st a) t \<longrightarrow>
            getSignatures E t st =
              (Inl (ServerCompromisedError ''Transaction proposal is invalid''), st)) \<and>
         (\<forall>sigs st'. getSignatures E t st = (Inr sigs, st') \<longrightarrow>
            Verifier_checkTxProposal E (objects st a) t \<and> canSign st \<and> st' = st \<and>
            sigs = WalletUtils_signTxp E t (xPrivKey (objects st a)))"
    using cred complete creator by (auto simp: getSignatures_def split: if_splits)
  have st1: "\<not> canSign st \<and> signatures t = None \<longrightarrow>
            signTxProposal E t st =
              (Inl (Error ''You do not have the required keys to sign transactions''), st)"
    using cred complete creator by (simp add: signTxProposal_def)
  show ?thesis
    using gs st1 signTxProposal_rejected [OF cred complete creator, of E]
      signTxProposal_sent [OF cred complete creator, of E]
      signTxProposal_submits [OF cred complete creator, of E]
    by blast
qed

theorem signing_requires_key_and_verification_witness:
  "canSign (client alice []) \<and>
   \<not> Verifier_checkTxProposal ex_env alice fetched_forged_txp \<and>
   getSignatures ex_env fetched_forged_txp (client alice []) =
     (Inl (ServerCompromisedError ''Transaction proposal is invalid''), client alice []) \<and>
   signTxProposal ex_env fetched_forged_txp (client alice []) =
     (Inl (ServerCompromisedError ''Server sent fake transaction proposal''), client alice []) \<and>
   \<not> canSign (client alice_nosign []) \<and>
   getSignatures ex_env fetched_txp (client alice_nosign []) =
     (Inl (Message ''You do not have the required keys to sign transactions''),
      client alice_nosign []) \<and>
   signTxProposal ex_env fetched_txp (client alice_nosign []) =
     (Inl (Error ''You do not have the required keys to sign transactions''),
      client alice_nosign [])"
proof -
  have can: "canSign (client alice [])" by code_simp
  have cannot: "\<not> canSign (client alice_nosign [])" by code_simp
  have bad: "\<not> Verifier_checkTxProposal ex_env alice fetched_forged_txp" by code_simp
  have complete: "Credentials_isComplete (objects (client alice []) 0)"
    by (simp add: client_objects alice_complete)
  have complete': "Credentials_isComplete (objects (client alice_nosign []) 0)"
    unfolding client_objects by code_simp
  have creator: "truthy (creatorId fetched_forged_txp)" by code_simp
  have creator': "truthy (creatorId fetched_txp)" by code_simp
  have nosigs: "signatures fetched_txp = None" by code_simp
  from signing_requires_key_and_verification
         [OF client_credentials complete creator, of ex_env] can bad
  have 1: "getSignatures ex_env fetched_forged_txp (client alice []) =
     (Inl (ServerCompromisedError ''Transaction proposal is invalid''), client alice [])"
    and 2: "signTxProposal ex_env fetched_forged_txp (client alice []) =
     (Inl (ServerCompromisedError ''Server sent fake transaction proposal''), client alice [])"
    by (simp_all add: client_objects)
  from signing_requires_key_and_verification
         [OF client_credentials complete' creator', of ex_env] cannot nosigs
  have 3: "getSignatures ex_env fetched_txp (client alice_nosign []) =
     (Inl (Message ''You do not have the required keys to sign transactions''),
      client alice_nosign [])"
    and 4: "signTxProposal ex_env fetched_txp (client alice_nosign []) =
     (Inl (Error ''You do not have the required keys to sign transactions''),
      client alice_nosign [])"
    by simp_all
  show ?thesis using can cannot bad 1 2 3 4 by simp
qed

text \<open>
  The claim as first stated fails: a client that cannot sign submits the signatures
  attached to a verified proposal, and \<open>signTxProposal\<close> succeeds.
\<close>

theorem signTxProposal_without_key_counterexample:
  "\<not> canSign (client alice_nosign [Response 200 (BTxp presigned_txp)]) \<and>
   fst (signTxProposal ex_env presigned_txp
          (client alice_nosign [Response 200 (BTxp presigned_txp)])) =
     Inr (BTxp presigned_txp) \<and>
   map req_body (sent (snd (signTxProposal ex_env presigned_txp
          (client alice_nosign [Response 200 (BTxp presigned_txp)])))) =
     [SignaturesArgs [''xprvA:t1''] ]"
  by code_simp

section \<open>Signing an air-gapped proposal\<close>

lemma signTxProposalFromAirGapped_early_failure:
  "signTxProposalFromAirGapped E t encPkr m n st = (Inl e, st') \<Longrightarrow>
     e \<noteq> Error ''Fake transaction proposal'' \<Longrightarrow> st' = st"
  by (auto simp: signTxProposalFromAirGapped_def Let_def split: option.splits if_splits)

text \<open>
  C3. When \<open>signTxProposalFromAirGapped\<close> has decrypted and parsed the transported ring
  (the client holds a signing key, and neither step threw) and the value is not an array
  of length exactly \<open>n\<close>, the call throws \<open>Invalid public key ring\<close> and the client is
  left as it was: the credential set's \<open>m\<close>, \<open>n\<close> and public key ring are not written.
\<close>

theorem airgapped_invalid_ring:
  assumes cred: "credentials st = Some a"
    and signer: "canSign st"
    and ring: "decryptedRing E (objects st a) encPkr = Some v"
    and invalid: "\<not> validRing v n"
  shows "signTxProposalFromAirGapped E t encPkr m n st =
           (Inl (Error ''Invalid public key ring''), st)"
  using assms by (simp add: signTxProposalFromAirGapped_def)

theorem airgapped_invalid_ring_witness:
  "canSign (client alice []) \<and>
   decryptedRing ex_env alice ''pkA|xpubA;xpubB;'' = Some (PArray [''xpubA'', ''xpubB'']) \<and>
   \<not> validRing (PArray [''xpubA'', ''xpubB'']) 3 \<and>
   signTxProposalFromAirGapped ex_env fetched_txp ''pkA|xpubA;xpubB;'' 2 3 (client alice []) =
     (Inl (Error ''Invalid public key ring''), client alice []) \<and>
   decryptedRing ex_env alice ''pkA|null'' = Some PNotArray \<and>
   signTxProposalFromAirGapped ex_env fetched_txp ''pkA|null'' 2 2 (client alice []) =
     (Inl (Error ''Invalid public key ring''), client alice [])"
proof -
  have can: "canSign (client alice [])" by code_simp
  have r1: "decryptedRing ex_env alice ''pkA|xpubA;xpubB;'' = Some (PArray [''xpubA'', ''xpubB''])"
    by code_simp
  have r2: "decryptedRing ex_env alice ''pkA|null'' = Some PNotArray"
    by code_simp
  have i1: "\<not> validRing (PArray [''xpubA'', ''xpubB'']) 3" by (simp add: validRing_def)
  have i2: "\<not> validRing PNotArray 2" by (simp add: validRing_def)
  have 1: "signTxProposalFromAirGapped ex_env fetched_txp ''pkA|xpubA;xpubB;'' 2 3 (client alice []) =
     (Inl (Error ''Invalid public key ring''), client alice [])"
    by (rule airgapped_invalid_ring [OF client_credentials can _ i1]) (simp add: client_objects r1)
  have 2: "signTxProposalFromAirGapped ex_env fetched_txp ''pkA|null'' 2 2 (client alice []) =
     (Inl (Error ''Invalid public key ring''), client alice [])"
    by (rule airgapped_invalid_ring [OF client_credentials can _ i2]) (simp add: client_objects r2)
  show ?thesis using can r1 r2 i1 1 2 by simp
qed

section \<open>Export\<close>

lemma API_export_result:
  assumes cred: "credentials st = Some a"
  shows "API_export E opts st =
           (let c = (if noSign opts then (objects st a)\<lparr>xPrivKey := None\<rparr> else objects st a);
                plain = (if compressed opts then Credentials_exportCompressed E c
                         else JSON_stringify_toObj E c);
                st2 = st\<lparr>objects := (objects st)(fresh st := c), fresh := Suc (fresh st)\<rparr>
            in if truthy (password opts)
               then (Inr (sjcl_encrypt E (entropy st) (js_str (password opts)) plain),
                     st2\<lparr>entropy := Suc (entropy st)\<rparr>)
               else (Inr plain, st2))"
  using cred
  by (simp add: API_export_def Credentials_fromObj_def new_object_def store_def draw_def Let_def)

lemma seedFromRandom_allocated: "allocated (seedFromRandom E net st)"
  by (simp add: seedFromRandom_def allocated_def draw_def new_object_def Let_def)

lemma API_import_allocated: "allocated st \<Longrightarrow> allocated (snd (API_import E d opts st))"
  by (auto simp: API_import_def allocated_def new_object_def Let_def
        split: if_splits sum.splits option.splits)

lemma API_export_allocated: "allocated st \<Longrightarrow> allocated (snd (API_export E opts st))"
proof (cases "credentials st")
  case None
  then show ?thesis by (simp add: API_export_def allocated_def)
next
  case (Some a)
  assume "allocated st"
  with Some show ?thesis
    by (simp add: API_export_result [OF Some] allocated_def Let_def)
qed

lemma doRequest_allocated:
  "allocated st \<Longrightarrow> allocated (snd (doRequest E meth url args st))"
  using doRequest_frame [of E meth url args st "fst (doRequest E meth url args st)"
          "snd (doRequest E meth url args st)"]
  by (simp add: allocated_def split: option.splits)

lemma store_allocated: "allocated st \<Longrightarrow> allocated (store a c st)"
  by (simp add: allocated_def store_def split: option.splits)

text \<open>
  C10. \<open>export\<close> never writes to the client's credential set. The object
  \<open>this.credentials\<close> refers to holds the same fields afterwards, as does every object
  that existed before the call, so the client can sign afterwards exactly when it could
  before. With \<open>noSign\<close> the signing private key is missing only from the copy that is
  serialised into the exported document.
\<close>

theorem export_leaves_credentials:
  assumes cred: "credentials st = Some a"
    and alloc: "allocated st"
  shows "credentials (snd (API_export E opts st)) = Some a \<and>
         objects (snd (API_export E opts st)) a = objects st a \<and>
         (\<forall>b. b < fresh st \<longrightarrow> objects (snd (API_export E opts st)) b = objects st b) \<and>
         canSign (snd (API_export E opts st)) = canSign st \<and>
         (\<exists>r. fst (API_export E opts st) =
            Inr (let c = (if noSign opts then (objects st a)\<lparr>xPrivKey := None\<rparr> else objects st a);
                     plain = (if compressed opts then Credentials_exportCompressed E c
                              else JSON_stringify_toObj E c)
                 in if truthy (password opts) then sjcl_encrypt E r (js_str (password opts)) plain
                    else plain))"
proof -
  from cred alloc have allocated: "a < fresh st" by (simp add: allocated_def)
  have 1: "credentials (snd (API_export E opts st)) = Some a"
    using cred by (simp add: API_export_result Let_def)
  have 2: "b < fresh st \<Longrightarrow> objects (snd (API_export E opts st)) b = objects st b" for b
    using cred by (simp add: API_export_result Let_def)
  have 3: "canSign (snd (API_export E opts st)) = canSign st"
    using 1 2 [OF allocated] cred by (simp add: canSign_this)
  have 4: "\<exists>r. fst (API_export E opts st) =
            Inr (let c = (if noSign opts then (objects st a)\<lparr>xPrivKey := None\<rparr> else objects st a);
                     plain = (if compressed opts then Credentials_exportCompressed E c
                              else JSON_stringify_toObj E c)
                 in if truthy (password opts) then sjcl_encrypt E r (js_str (password opts)) plain
                    else plain)"
    using cred by (auto simp: API_export_result Let_def)
  show ?thesis using 1 2 [OF allocated] 2 3 4 by blast
qed

theorem export_leaves_credentials_witness:
  "allocated (client alice []) \<and> canSign (client alice []) \<and>
   fst (API_export ex_env \<lparr>compressed = False, password = Some ''secret'', noSign = True\<rparr>
          (client alice [])) =
     Inr (Sealed ''secret'' 0 (Json alice_nosign)) \<and>
   this_credentials
     (snd (API_export ex_env \<lparr>compressed = False, password = Some ''secret'', noSign = True\<rparr>
             (client alice []))) = Some alice \<and>
   canSign (snd (API_export ex_env \<lparr>compressed = False, password = Some ''secret'', noSign = True\<rparr>
                   (client alice [])))"
proof -
  let ?opts = "\<lparr>compressed = False, password = Some ''secret'', noSign = True\<rparr>"
  have can: "canSign (client alice [])" by code_simp
  have alloc: "allocated (client alice [])" by (simp add: client_def allocated_def)
  have doc: "fst (API_export ex_env ?opts (client alice [])) =
     Inr (Sealed ''secret'' 0 (Json alice_nosign))"
    by code_simp
  from export_leaves_credentials [OF client_credentials alloc, of ex_env ?opts]
  have "credentials (snd (API_export ex_env ?opts (client alice []))) = Some 0"
    and "objects (snd (API_export ex_env ?opts (client alice []))) 0 = alice"
    and "canSign (snd (API_export ex_env ?opts (client alice []))) = canSign (client alice [])"
    by (simp_all add: client_objects)
  with alloc can doc show ?thesis by (simp add: this_credentials_def)
qed

section \<open>Import\<close>

lemma API_import_failure_keeps_state:
  "API_import E d opts st = (Inl e, st') \<Longrightarrow> st' = st"
  by (auto simp: API_import_def new_object_def Let_def
        split: if_splits sum.splits option.splits)

lemma API_import_wrong_password:
  "truthy (password opts) \<Longrightarrow> sjcl_decrypt E (js_str (password opts)) d = Inl ex \<Longrightarrow>
     API_import E d opts st = (Inl (Exception ex), st)"
  by (simp add: API_import_def)

lemma API_import_never_IncorrectPassword:
  "fst (API_import E d opts st) \<noteq> Inl (Error ''Incorrect password'')"
  by (auto simp: API_import_def new_object_def Let_def
        split: if_splits sum.splits option.splits)


text \<open>
  C4 at a password-protected export read with a wrong password. The export of Alice's
  credential set under the password \<open>secret\<close> is imported with the password \<open>wrong\<close>:
  the call fails with the exception of the decryption library, thrown again as it is,
  and not with \<open>Incorrect password\<close>; the importing client is left as it was.
\<close>

theorem import_wrong_password_exception:
  "fst (API_export ex_env \<lparr>compressed = False, password = Some ''secret'', noSign = False\<rparr>
          (client alice [])) = Inr (Sealed ''secret'' 0 (Json alice)) \<and>
   API_import ex_env (Sealed ''secret'' 0 (Json alice))
       \<lparr>compressed = False, password = Some ''wrong'', noSign = False\<rparr> (client alice_nosign []) =
     (Inl (Exception ''CORRUPT''), client alice_nosign []) \<and>
   fst (API_import ex_env (Sealed ''secret'' 0 (Json alice))
          \<lparr>compressed = False, password = Some ''wrong'', noSign = False\<rparr> (client alice_nosign []))
     \<noteq> Inl (Error ''Incorrect password'')"
proof -
  have 1: "fst (API_export ex_env \<lparr>compressed = False, password = Some ''secret'', noSign = False\<rparr>
          (client alice [])) = Inr (Sealed ''secret'' 0 (Json alice))"
    by code_simp
  have 2: "API_import ex_env (Sealed ''secret'' 0 (Json alice))
       \<lparr>compressed = False, password = Some ''wrong'', noSign = False\<rparr> (client alice_nosign []) =
     (Inl (Exception ''CORRUPT''), client alice_nosign [])"
    by (rule API_import_wrong_password) (simp_all add: truthy_def js_str_def ex_env_def)
  show ?thesis using 1 2 by simp
qed

section \<open>Export and import, round trip\<close>




section \<open>Creating a wallet\<close>

lemma doJoinWallet_frame:
  "doJoinWallet E wid k xpub cname st = (r, st1) \<Longrightarrow>
     credentials st1 = credentials st \<and> objects st1 = objects st"
  by (auto simp: doJoinWallet_def Let_def dest: doPostRequest_frame
        split: prod.splits sum.splits)





section \<open>Opening a wallet\<close>

lemma capRing_keeps:
  "n = Some k \<Longrightarrow> int (length ring) = k \<Longrightarrow> capRing n (ring @ rest) = ring"
  by (auto simp: capRing_def)

lemma capRing_bounded:
  "0 \<le> k \<Longrightarrow> int (length (capRing (Some k) ring)) \<le> k"
  by (simp add: capRing_def)

lemma capRing_reaches:
  "0 \<le> k \<Longrightarrow> k \<le> int (length ring) \<Longrightarrow> int (length (capRing (Some k) ring)) = k"
  by (simp add: capRing_def)

text \<open>
  The ring as modelled keeps the invariants of the spec: it never holds more than \<open>n\<close>
  keys, a complete credential set stays as it is, and a set with wallet metadata becomes
  complete as soon as \<open>n\<close> keys are there.
\<close>

lemma addPublicKeyRing_bounded:
  "cred_n c = Some k \<Longrightarrow> 0 \<le> k \<Longrightarrow>
     int (length (publicKeyRing (Credentials_addPublicKeyRing c xpubs))) \<le> k"
  by (simp add: Credentials_addPublicKeyRing_def capRing_bounded)

lemma addPublicKeyRing_complete:
  "Credentials_isComplete c \<Longrightarrow> Credentials_addPublicKeyRing c xpubs = c"
  by (simp add: Credentials_addPublicKeyRing_def Credentials_isComplete_def mergeRing_def
        capRing_keeps)

lemma addPublicKeyRing_reaches:
  "Credentials_hasWalletInfo c \<Longrightarrow> cred_n c = Some k \<Longrightarrow> 0 \<le> k \<Longrightarrow>
     k \<le> int (length (mergeRing (publicKeyRing c) xpubs)) \<Longrightarrow>
     Credentials_isComplete (Credentials_addPublicKeyRing c xpubs)"
  by (simp add: Credentials_addPublicKeyRing_def Credentials_isComplete_def
        Credentials_hasWalletInfo_def capRing_reaches)

lemma addWalletInfo_bounded:
  "0 \<le> k \<Longrightarrow>
     int (length (publicKeyRing
       (Credentials_addWalletInfo derive c wid wname wm (Some k) wpk cname))) \<le> k"
  by (simp add: Credentials_addWalletInfo_def capRing_bounded)

lemma addWalletInfo_reaches:
  "truthy wid \<Longrightarrow> 0 \<le> k \<Longrightarrow> k \<le> int (length (publicKeyRing c)) \<Longrightarrow>
     Credentials_isComplete (Credentials_addWalletInfo derive c wid wname wm (Some k) wpk cname)"
  by (simp add: Credentials_addWalletInfo_def Credentials_isComplete_def
        Credentials_hasWalletInfo_def capRing_reaches)

lemma openWallet_complete:
  "credentials st = Some a \<Longrightarrow> Credentials_isComplete (objects st a) \<Longrightarrow>
     openWallet E st = (Inr False, st)"
  by (simp add: openWallet_def)

lemma openWallet_not_False:
  assumes "credentials st = Some a" "\<not> Credentials_isComplete (objects st a)"
  shows "fst (openWallet E st) \<noteq> Inr False"
  using assms
  by (auto simp: openWallet_def Let_def
        split: prod.splits sum.splits option.splits if_splits)

lemma openWallet_True_only_complete:
  assumes "credentials st = Some a"
    and opened: "openWallet E st = (Inr True, st')"
  shows "\<exists>ob w st1. doGetRequest E ''/v1/wallets/'' st = (Inr (BObject ob), st1) \<and>
           o_wallet ob = Some w \<and> w_status w = ''complete''"
  using assms
  by (auto simp: openWallet_def prop_wallet_def Let_def
        split: if_splits prod.splits sum.splits option.splits resp_body.splits)

lemma openWallet_fails_otherwise:
  assumes cred: "credentials st = Some a" and inc: "\<not> Credentials_isComplete (objects st a)"
    and other: "\<not> (\<exists>ob w st1. doGetRequest E ''/v1/wallets/'' st = (Inr (BObject ob), st1) \<and>
                    o_wallet ob = Some w \<and> w_status w = ''complete'')"
  shows "(\<exists>e. fst (openWallet E st) = Inl e) \<and>
         objects (snd (openWallet E st)) = objects st \<and>
         credentials (snd (openWallet E st)) = credentials st"
proof -
  obtain r st1 where fetch: "doGetRequest E ''/v1/wallets/'' st = (r, st1)"
    by (cases "doGetRequest E ''/v1/wallets/'' st")
  from doGetRequest_frame [OF fetch]
  have frame: "objects st1 = objects st" "credentials st1 = credentials st" by simp_all
  show ?thesis
  proof (cases r)
    case (Inl err)
    with cred inc fetch frame show ?thesis by (simp add: openWallet_def)
  next
    case (Inr body)
    show ?thesis
    proof (cases "prop_wallet body")
      case (Inl e)
      with cred inc fetch frame Inr show ?thesis by (simp add: openWallet_def)
    next
      case none: (Inr wo)
      show ?thesis
      proof (cases wo)
        case None
        with cred inc fetch frame Inr none show ?thesis by (simp add: openWallet_def)
      next
        case (Some w)
        with none obtain ob where body: "body = BObject ob" "o_wallet ob = Some w"
          by (auto simp: prop_wallet_def split: resp_body.splits)
        with other fetch Inr have "w_status w \<noteq> ''complete''" by auto
        with cred inc fetch frame Inr none Some show ?thesis by (simp add: openWallet_def)
      qed
    qed
  qed
qed

lemma openWallet_incomplete:
  assumes "credentials st = Some a" "\<not> Credentials_isComplete (objects st a)"
    and fetch: "doGetRequest E ''/v1/wallets/'' st = (Inr (BObject ob), st1)"
    and "o_wallet ob = Some w" "w_status w \<noteq> ''complete''"
  shows "openWallet E st = (Inl (Message ''Wallet Incomplete''), st1)"
  using assms by (simp add: openWallet_def prop_wallet_def)

lemma openWallet_compromised:
  assumes "credentials st = Some a" "\<not> Credentials_isComplete (objects st a)"
    and fetch: "doGetRequest E ''/v1/wallets/'' st = (Inr (BObject ob), st1)"
    and "o_wallet ob = Some w" "w_status w = ''complete''"
    and "truthy (walletPrivKey (objects st a))"
    and "\<not> Verifier_checkCopayers E (objects st a) (w_copayers w)"
  shows "openWallet E st =
           (Inl (ServerCompromisedError
              ''Copayers in the wallet could not be verified to have known the wallet secret''),
            st1)"
proof -
  from doGetRequest_frame [OF fetch] have "objects st1 a = objects st a" by simp
  with assms show ?thesis by (simp add: openWallet_def prop_wallet_def)
qed

lemma openWallet_unverifiable:
  assumes "credentials st = Some a" "\<not> Credentials_isComplete (objects st a)"
    and fetch: "doGetRequest E ''/v1/wallets/'' st = (Inr (BObject ob), st1)"
    and "o_wallet ob = Some w" "w_status w = ''complete''"
    and "\<not> truthy (walletPrivKey (objects st a))"
  shows "(fst (openWallet E st) = Inr True \<or> fst (openWallet E st) = Inl TypeError) \<and>
         warnings (snd (openWallet E st)) =
           warnings st @ [''Could not perform verification of other copayers in the wallet'']"
proof -
  from doGetRequest_frame [OF fetch]
  have "objects st1 a = objects st a" "warnings st1 = warnings st" by simp_all
  with assms show ?thesis
    by (simp add: openWallet_def prop_wallet_def store_def log_warn_def Let_def
          split: option.splits)
qed

text \<open>The credential set that a successful \<open>openWallet\<close> leaves behind.\<close>

lemma openWallet_merges:
  assumes "credentials st = Some a" "\<not> Credentials_isComplete (objects st a)"
    and fetch: "doGetRequest E ''/v1/wallets/'' st = (Inr (BObject ob), st1)"
    and "o_wallet ob = Some w" "w_status w = ''complete''"
    and "truthy (walletPrivKey (objects st a)) \<longrightarrow>
           Verifier_checkCopayers E (objects st a) (w_copayers w)"
    and "Credentials_hasWalletInfo (objects st a) \<or>
           copayerId (objects st a) \<in> cp_id ` set (w_copayers w)"
  shows "fst (openWallet E st) = Inr True \<and>
         objects (snd (openWallet E st)) a =
           (let merged = Credentials_addPublicKeyRing (objects st a)
                           (map cp_xPubKey (w_copayers w))
            in if Credentials_hasWalletInfo (objects st a) then merged
               else Credentials_addWalletInfo (Credentials_deriveSharedKey E) merged
                      (Some (w_id w)) (Some (w_name w)) (Some (w_m w)) (Some (w_n w)) None
                      (map_option cp_name
                         (find (\<lambda>cp. cp_id cp = copayerId (objects st a)) (w_copayers w))))"
proof -
  from doGetRequest_frame [OF fetch]
  have obj: "objects st1 a = objects st a" by simp
  have info: "Credentials_hasWalletInfo (Credentials_addPublicKeyRing c xs) =
                Credentials_hasWalletInfo c" for c xs
    by (simp add: Credentials_addPublicKeyRing_def Credentials_hasWalletInfo_def)
  have cid: "copayerId (Credentials_addPublicKeyRing c xs) = copayerId c" for c xs
    by (simp add: Credentials_addPublicKeyRing_def)
  show ?thesis
  proof (cases "Credentials_hasWalletInfo (objects st a)")
    case True
    with assms(1-6) obj show ?thesis
      by (auto simp: openWallet_def prop_wallet_def store_def log_warn_def Let_def info)
  next
    case False
    with assms(7) obtain me where
      "find (\<lambda>cp. cp_id cp = copayerId (objects st a)) (w_copayers w) = Some me"
      by (cases "find (\<lambda>cp. cp_id cp = copayerId (objects st a)) (w_copayers w)")
         (auto simp: find_None_iff)
    with False assms(1-6) obj show ?thesis
      by (auto simp: openWallet_def prop_wallet_def store_def log_warn_def Let_def info cid)
  qed
qed

lemma openWallet_stranger:
  assumes "credentials st = Some a" "\<not> Credentials_isComplete (objects st a)"
    and fetch: "doGetRequest E ''/v1/wallets/'' st = (Inr (BObject ob), st1)"
    and "o_wallet ob = Some w" "w_status w = ''complete''"
    and "truthy (walletPrivKey (objects st a)) \<longrightarrow>
           Verifier_checkCopayers E (objects st a) (w_copayers w)"
    and "\<not> Credentials_hasWalletInfo (objects st a)"
    and "copayerId (objects st a) \<notin> cp_id ` set (w_copayers w)"
  shows "fst (openWallet E st) = Inl TypeError"
proof -
  from doGetRequest_frame [OF fetch]
  have obj: "objects st1 a = objects st a" by simp
  have info: "Credentials_hasWalletInfo (Credentials_addPublicKeyRing c xs) =
                Credentials_hasWalletInfo c" for c xs
    by (simp add: Credentials_addPublicKeyRing_def Credentials_hasWalletInfo_def)
  have cid: "copayerId (Credentials_addPublicKeyRing c xs) = copayerId c" for c xs
    by (simp add: Credentials_addPublicKeyRing_def)
  from assms(8)
  have "find (\<lambda>cp. cp_id cp = copayerId (objects st a)) (w_copayers w) = None"
    by (force simp: find_None_iff)
  with assms(1-7) obj show ?thesis
    by (auto simp: openWallet_def prop_wallet_def store_def log_warn_def Let_def info cid)
qed

lemma openWallet_completes:
  assumes "credentials st = Some a" "\<not> Credentials_isComplete (objects st a)"
    and fetch: "doGetRequest E ''/v1/wallets/'' st = (Inr (BObject ob), st1)"
    and "o_wallet ob = Some w" "w_status w = ''complete''"
    and "truthy (walletPrivKey (objects st a)) \<longrightarrow>
           Verifier_checkCopayers E (objects st a) (w_copayers w)"
    and "Credentials_hasWalletInfo (objects st a) \<or>
           copayerId (objects st a) \<in> cp_id ` set (w_copayers w)"
    and enough:
      "if Credentials_hasWalletInfo (objects st a)
       then \<exists>k. cred_n (objects st a) = Some k \<and> 0 \<le> k \<and>
                k \<le> int (length (mergeRing (publicKeyRing (objects st a))
                                     (map cp_xPubKey (w_copayers w))))
       else w_id w \<noteq> [] \<and> 0 \<le> w_n w \<and>
            w_n w \<le> int (length (publicKeyRing
                       (Credentials_addPublicKeyRing (objects st a)
                          (map cp_xPubKey (w_copayers w)))))"
  shows "Credentials_isComplete (objects (snd (openWallet E st)) a)"
proof (cases "Credentials_hasWalletInfo (objects st a)")
  case True
  with enough obtain k where "cred_n (objects st a) = Some k" "0 \<le> k"
    "k \<le> int (length (mergeRing (publicKeyRing (objects st a))
                         (map cp_xPubKey (w_copayers w))))"
    by auto
  with True openWallet_merges [OF assms(1-7)] show ?thesis
    by (simp add: addPublicKeyRing_reaches)
next
  case False
  with enough openWallet_merges [OF assms(1-7)] show ?thesis
    by (simp add: addWalletInfo_reaches truthy_def)
qed

text \<open>
  C7. On a client with credentials, for every response of the service:
  \<^item> when the credentials are already complete, \<open>openWallet\<close> returns false and the
    client is as it was (no request has been made); when they are not, it never returns
    false: it returns true or fails;
  \<^item> it returns true only when the service answered with a wallet whose status is
    \<open>complete\<close>; on every other response (a transport error, a status that is not 200,
    a body without wallet, another wallet status) it fails, and the credential objects
    are as they were; with another wallet status the error is \<open>Wallet Incomplete\<close>;
  \<^item> when the wallet-level private key is present and \<open>Verifier.checkCopayers\<close> rejects
    the service's copayer list, it fails with the trust violation, and the state after
    differs from the state before only by the request made: the credential objects are
    as they were;
  \<^item> when the key is absent the check is skipped, the warning is logged, and the call
    does not fail for that: it returns true, or throws where the local copayer is missing
    from the list; past the check the call throws exactly when the wallet metadata is not
    known and no copayer of the list carries the local copayer id;
  \<^item> when it succeeds the ring has been merged with the service's keys and, if the
    wallet metadata was not known, id, name, m and n are the service's and the copayer
    name is the one the service lists for the local copayer id; the credential set is
    then complete provided the merged ring reaches \<open>n\<close> keys.
\<close>

theorem openWallet_cases:
  assumes cred: "credentials st = Some a"
  shows "(Credentials_isComplete (objects st a) \<longrightarrow> openWallet E st = (Inr False, st)) \<and>
         (\<not> Credentials_isComplete (objects st a) \<longrightarrow> fst (openWallet E st) \<noteq> Inr False) \<and>
         (\<forall>st'. openWallet E st = (Inr True, st') \<longrightarrow>
            (\<exists>ob w st1. doGetRequest E ''/v1/wallets/'' st = (Inr (BObject ob), st1) \<and>
               o_wallet ob = Some w \<and> w_status w = ''complete'')) \<and>
         (\<not> Credentials_isComplete (objects st a) \<and>
          \<not> (\<exists>ob w st1. doGetRequest E ''/v1/wallets/'' st = (Inr (BObject ob), st1) \<and>
                 o_wallet ob = Some w \<and> w_status w = ''complete'') \<longrightarrow>
            (\<exists>e. fst (openWallet E st) = Inl e) \<and>
            objects (snd (openWallet E st)) = objects st \<and>
            credentials (snd (openWallet E st)) = credentials st) \<and>
         (\<not> Credentials_isComplete (objects st a) \<and>
          doGetRequest E ''/v1/wallets/'' st = (Inr (BObject ob), st1) \<and> o_wallet ob = Some w \<longrightarrow>
            objects st1 = objects st \<and> credentials st1 = credentials st \<and>
            (w_status w \<noteq> ''complete'' \<longrightarrow>
               openWallet E st = (Inl (Message ''Wallet Incomplete''), st1)) \<and>
            (w_status w = ''complete'' \<and> truthy (walletPrivKey (objects st a)) \<and>
             \<not> Verifier_checkCopayers E (objects st a) (w_copayers w) \<longrightarrow>
               openWallet E st =
                 (Inl (ServerCompromisedError
                    ''Copayers in the wallet could not be verified to have known the wallet secret''),
                  st1)) \<and>
            (w_status w = ''complete'' \<and> \<not> truthy (walletPrivKey (objects st a)) \<longrightarrow>
               (fst (openWallet E st) = Inr True \<or> fst (openWallet E st) = Inl TypeError) \<and>
               warnings (snd (openWallet E st)) =
                 warnings st @
                 [''Could not perform verification of other copayers in the wallet'']) \<and>
            (w_status w = ''complete'' \<and>
             (truthy (walletPrivKey (objects st a)) \<longrightarrow>
                Verifier_checkCopayers E (objects st a) (w_copayers w)) \<and>
             \<not> Credentials_hasWalletInfo (objects st a) \<and>
             copayerId (objects st a) \<notin> cp_id ` set (w_copayers w) \<longrightarrow>
               fst (openWallet E st) = Inl TypeError) \<and>
            (w_status w = ''complete'' \<and>
             (truthy (walletPrivKey (objects st a)) \<longrightarrow>
                Verifier_checkCopayers E (objects st a) (w_copayers w)) \<and>
             (Credentials_hasWalletInfo (objects st a) \<or>
                copayerId (objects st a) \<in> cp_id ` set (w_copayers w)) \<longrightarrow>
               fst (openWallet E st) = Inr True \<and>
               objects (snd (openWallet E st)) a =
                 (let merged = Credentials_addPublicKeyRing (objects st a)
                                 (map cp_xPubKey (w_copayers w))
                  in if Credentials_hasWalletInfo (objects st a) then merged
                     else Credentials_addWalletInfo (Credentials_deriveSharedKey E) merged
                            (Some (w_id w)) (Some (w_name w)) (Some (w_m w)) (Some (w_n w)) None
                            (map_option cp_name
                               (find (\<lambda>cp. cp_id cp = copayerId (objects st a))
                                  (w_copayers w)))) \<and>
               ((if Credentials_hasWalletInfo (objects st a)
                 then \<exists>k. cred_n (objects st a) = Some k \<and> 0 \<le> k \<and>
                          k \<le> int (length (mergeRing (publicKeyRing (objects st a))
                                               (map cp_xPubKey (w_copayers w))))
                 else w_id w \<noteq> [] \<and> 0 \<le> w_n w \<and>
                      w_n w \<le> int (length (publicKeyRing
                                 (Credentials_addPublicKeyRing (objects st a)
                                    (map cp_xPubKey (w_copayers w)))))) \<longrightarrow>
                Credentials_isComplete (objects (snd (openWallet E st)) a))))"
proof (intro conjI impI allI; (elim conjE)?)
  show "openWallet E st = (Inr False, st)" if "Credentials_isComplete (objects st a)"
    using cred that by (rule openWallet_complete)
  show "fst (openWallet E st) \<noteq> Inr False" if "\<not> Credentials_isComplete (objects st a)"
    using cred that by (rule openWallet_not_False)
  show "\<exists>ob w st1. doGetRequest E ''/v1/wallets/'' st = (Inr (BObject ob), st1) \<and>
               o_wallet ob = Some w \<and> w_status w = ''complete''"
    if "openWallet E st = (Inr True, st')" for st'
    using cred that by (rule openWallet_True_only_complete)
next
  assume "\<not> Credentials_isComplete (objects st a)"
    "\<not> (\<exists>ob w st1. doGetRequest E ''/v1/wallets/'' st = (Inr (BObject ob), st1) \<and>
           o_wallet ob = Some w \<and> w_status w = ''complete'')"
  note other = openWallet_fails_otherwise [OF cred this]
  from other show "\<exists>e. fst (openWallet E st) = Inl e" by simp
  from other show "objects (snd (openWallet E st)) = objects st" by simp
  from other show "credentials (snd (openWallet E st)) = credentials st" by simp
next
  assume fetch: "doGetRequest E ''/v1/wallets/'' st = (Inr (BObject ob), st1)"
  from doGetRequest_frame [OF fetch]
  show "objects st1 = objects st" "credentials st1 = credentials st" by simp_all
next
  assume h: "\<not> Credentials_isComplete (objects st a)"
    "doGetRequest E ''/v1/wallets/'' st = (Inr (BObject ob), st1)" "o_wallet ob = Some w"
  show "openWallet E st = (Inl (Message ''Wallet Incomplete''), st1)"
    if "w_status w \<noteq> ''complete''"
    using cred h that by (rule openWallet_incomplete)
  show "openWallet E st =
          (Inl (ServerCompromisedError
             ''Copayers in the wallet could not be verified to have known the wallet secret''),
           st1)"
    if "w_status w = ''complete''" "truthy (walletPrivKey (objects st a))"
      "\<not> Verifier_checkCopayers E (objects st a) (w_copayers w)"
    using cred h that by (rule openWallet_compromised)
next
  assume h: "\<not> Credentials_isComplete (objects st a)"
    "doGetRequest E ''/v1/wallets/'' st = (Inr (BObject ob), st1)" "o_wallet ob = Some w"
    "w_status w = ''complete''" "\<not> truthy (walletPrivKey (objects st a))"
  note unverifiable = openWallet_unverifiable [OF cred h]
  from unverifiable
  show "fst (openWallet E st) = Inr True \<or> fst (openWallet E st) = Inl TypeError" by simp
  from unverifiable
  show "warnings (snd (openWallet E st)) =
          warnings st @ [''Could not perform verification of other copayers in the wallet'']"
    by simp
next
  assume "\<not> Credentials_isComplete (objects st a)"
    "doGetRequest E ''/v1/wallets/'' st = (Inr (BObject ob), st1)" "o_wallet ob = Some w"
    "w_status w = ''complete''"
    "truthy (walletPrivKey (objects st a)) \<longrightarrow>
       Verifier_checkCopayers E (objects st a) (w_copayers w)"
    "\<not> Credentials_hasWalletInfo (objects st a)"
    "copayerId (objects st a) \<notin> cp_id ` set (w_copayers w)"
  with cred show "fst (openWallet E st) = Inl TypeError"
    by (rule openWallet_stranger)
next
  assume h: "\<not> Credentials_isComplete (objects st a)"
    "doGetRequest E ''/v1/wallets/'' st = (Inr (BObject ob), st1)" "o_wallet ob = Some w"
    "w_status w = ''complete''"
    "truthy (walletPrivKey (objects st a)) \<longrightarrow>
       Verifier_checkCopayers E (objects st a) (w_copayers w)"
    "Credentials_hasWalletInfo (objects st a) \<or>
       copayerId (objects st a) \<in> cp_id ` set (w_copayers w)"
  note merges = openWallet_merges [OF cred h]
  from merges show "fst (openWallet E st) = Inr True" by simp
  from merges show "objects (snd (openWallet E st)) a =
                 (let merged = Credentials_addPublicKeyRing (objects st a)
                                 (map cp_xPubKey (w_copayers w))
                  in if Credentials_hasWalletInfo (objects st a) then merged
                     else Credentials_addWalletInfo (Credentials_deriveSharedKey E) merged
                            (Some (w_id w)) (Some (w_name w)) (Some (w_m w)) (Some (w_n w)) None
                            (map_option cp_name
                               (find (\<lambda>cp. cp_id cp = copayerId (objects st a))
                                  (w_copayers w))))"
    by simp
  show "Credentials_isComplete (objects (snd (openWallet E st)) a)"
    if "if Credentials_hasWalletInfo (objects st a)
        then \<exists>k. cred_n (objects st a) = Some k \<and> 0 \<le> k \<and>
                 k \<le> int (length (mergeRing (publicKeyRing (objects st a))
                                      (map cp_xPubKey (w_copayers w))))
        else w_id w \<noteq> [] \<and> 0 \<le> w_n w \<and>
             w_n w \<le> int (length (publicKeyRing
                        (Credentials_addPublicKeyRing (objects st a)
                           (map cp_xPubKey (w_copayers w)))))"
    using cred h that by (rule openWallet_completes)
qed

theorem openWallet_cases_witness:
  "openWallet ex_env (client alice [Response 200 (wallet_body wallet_w1)]) =
     (Inr False, client alice [Response 200 (wallet_body wallet_w1)]) \<and>
   fst (openWallet ex_env (client alice_pending [Response 200 (wallet_body wallet_pending)])) =
     Inl (Message ''Wallet Incomplete'') \<and>
   truthy (walletPrivKey alice_pending) \<and>
   \<not> Verifier_checkCopayers ex_env alice_pending (w_copayers wallet_strangers) \<and>
   fst (openWallet ex_env (client alice_pending [Response 200 (wallet_body wallet_strangers)])) =
     Inl (ServerCompromisedError
       ''Copayers in the wallet could not be verified to have known the wallet secret'') \<and>
   this_credentials
     (snd (openWallet ex_env (client alice_pending [Response 200 (wallet_body wallet_strangers)]))) =
     Some alice_pending \<and>
   \<not> truthy (walletPrivKey alice_pending_nokey) \<and>
   fst (openWallet ex_env
          (client alice_pending_nokey [Response 200 (wallet_body wallet_strangers)])) = Inr True \<and>
   warnings (snd (openWallet ex_env
          (client alice_pending_nokey [Response 200 (wallet_body wallet_strangers)]))) =
     [''Could not perform verification of other copayers in the wallet''] \<and>
   fst (openWallet ex_env (client alice_pending [Response 200 (wallet_body wallet_w1)])) =
     Inr True \<and>
   publicKeyRing (objects
     (snd (openWallet ex_env (client alice_pending [Response 200 (wallet_body wallet_w1)]))) 0) =
     [''xpubA'', ''xpubB''] \<and>
   Credentials_isComplete (objects
     (snd (openWallet ex_env (client alice_pending [Response 200 (wallet_body wallet_w1)]))) 0) \<and>
   Credentials_isComplete (objects
     (snd (openWallet ex_env
            (client alice_pending_nokey [Response 200 (wallet_body wallet_strangers)]))) 0) \<and>
   fst (openWallet ex_env (client alice_pending [])) = Inl (RequestError ''ECONNREFUSED'') \<and>
   fst (openWallet ex_env (client alice_pending [Response 200 BNull])) = Inl TypeError \<and>
   fst (openWallet ex_env (client alice_pending [Response 500 BNull])) =
     Inl (GenericError (Some ''There was an unknown error processing the request''))"
proof -
  let ?ob = "\<lambda>w. \<lparr>o_walletId = None, o_wallet = Some w, o_pendingTxps = None,
                   o_code = None, o_message = None, o_error = None\<rparr>"
  have fetch: "doGetRequest ex_env ''/v1/wallets/'' (client c [Response 200 (wallet_body w)]) =
      (Inr (BObject (?ob w)),
       snd (doGetRequest ex_env ''/v1/wallets/'' (client c [Response 200 (wallet_body w)])))"
    for c w
    using client_doGetRequest [of "''/v1/wallets/''" c "wallet_body w" "[]"]
    by (simp add: wallet_body_def)
  have pending: "\<not> Credentials_isComplete alice_pending" by code_simp
  have pending': "\<not> Credentials_isComplete alice_pending_nokey" by code_simp
  have key: "truthy (walletPrivKey alice_pending)" by code_simp
  have nokey: "\<not> truthy (walletPrivKey alice_pending_nokey)" by code_simp
  have info: "Credentials_hasWalletInfo alice_pending_nokey" by code_simp
  have info': "Credentials_hasWalletInfo alice_pending" by code_simp
  have bad: "\<not> Verifier_checkCopayers ex_env alice_pending (w_copayers wallet_strangers)"
    by code_simp
  have good: "Verifier_checkCopayers ex_env alice_pending (w_copayers wallet_w1)"
    by code_simp
  have st_p: "w_status wallet_pending \<noteq> ''complete''" by code_simp
  have st_s: "w_status wallet_strangers = ''complete''" by code_simp
  have st_w: "w_status wallet_w1 = ''complete''" by code_simp
  have ring: "publicKeyRing (Credentials_addPublicKeyRing alice_pending
                (map cp_xPubKey (w_copayers wallet_w1))) = [''xpubA'', ''xpubB'']"
    by code_simp
  have enough: "\<exists>k. cred_n alice_pending = Some k \<and> 0 \<le> k \<and>
                  k \<le> int (length (mergeRing (publicKeyRing alice_pending)
                                       (map cp_xPubKey (w_copayers wallet_w1))))"
    by (rule exI [of _ 2]) code_simp
  have 1: "openWallet ex_env (client alice [Response 200 (wallet_body wallet_w1)]) =
     (Inr False, client alice [Response 200 (wallet_body wallet_w1)])"
    using openWallet_cases [OF client_credentials, of alice _ ex_env] alice_complete
    by (simp add: client_objects)
  have 2: "fst (openWallet ex_env (client alice_pending [Response 200 (wallet_body wallet_pending)])) =
     Inl (Message ''Wallet Incomplete'')"
    using openWallet_cases [OF client_credentials, of alice_pending _ ex_env,
            where ob = "?ob wallet_pending" and w = wallet_pending]
      fetch [of alice_pending wallet_pending] pending st_p
    by (simp add: client_objects)
  have 3: "fst (openWallet ex_env (client alice_pending [Response 200 (wallet_body wallet_strangers)])) =
     Inl (ServerCompromisedError
       ''Copayers in the wallet could not be verified to have known the wallet secret'') \<and>
     this_credentials
     (snd (openWallet ex_env (client alice_pending [Response 200 (wallet_body wallet_strangers)]))) =
     Some alice_pending"
    using openWallet_cases [OF client_credentials, of alice_pending _ ex_env,
            where ob = "?ob wallet_strangers" and w = wallet_strangers]
      fetch [of alice_pending wallet_strangers] pending st_s key bad
    by (simp add: client_objects this_credentials_def client_credentials)
  have 4: "fst (openWallet ex_env
          (client alice_pending_nokey [Response 200 (wallet_body wallet_strangers)])) = Inr True \<and>
   warnings (snd (openWallet ex_env
          (client alice_pending_nokey [Response 200 (wallet_body wallet_strangers)]))) =
     [''Could not perform verification of other copayers in the wallet'']"
    using openWallet_cases [OF client_credentials, of alice_pending_nokey _ ex_env,
            where ob = "?ob wallet_strangers" and w = wallet_strangers]
      fetch [of alice_pending_nokey wallet_strangers] pending' st_s nokey info
    by (simp add: client_objects) (simp add: client_def)
  have 5: "fst (openWallet ex_env (client alice_pending [Response 200 (wallet_body wallet_w1)])) =
     Inr True \<and>
   publicKeyRing (objects
     (snd (openWallet ex_env (client alice_pending [Response 200 (wallet_body wallet_w1)]))) 0) =
     [''xpubA'', ''xpubB''] \<and>
   Credentials_isComplete (objects
     (snd (openWallet ex_env (client alice_pending [Response 200 (wallet_body wallet_w1)]))) 0)"
    using openWallet_cases
            [OF client_credentials [of alice_pending "[Response 200 (wallet_body wallet_w1)]"],
             where E = ex_env and ob = "?ob wallet_w1" and w = wallet_w1 and
               ?st1.0 = "snd (doGetRequest ex_env ''/v1/wallets/''
                             (client alice_pending [Response 200 (wallet_body wallet_w1)]))"]
      fetch [of alice_pending wallet_w1] pending st_w key good info' ring enough
    by (auto simp: client_objects)
  have 6: "fst (openWallet ex_env (client alice_pending [])) = Inl (RequestError ''ECONNREFUSED'')"
    by code_simp
  have 7: "fst (openWallet ex_env (client alice_pending [Response 200 BNull])) = Inl TypeError"
    by code_simp
  have 8: "fst (openWallet ex_env (client alice_pending [Response 500 BNull])) =
     Inl (GenericError (Some ''There was an unknown error processing the request''))"
    by code_simp
  have 9: "Credentials_isComplete (objects
     (snd (openWallet ex_env
            (client alice_pending_nokey [Response 200 (wallet_body wallet_strangers)]))) 0)"
    by code_simp
  show ?thesis using 1 2 3 4 5 6 7 8 9 key nokey bad by simp
qed

section \<open>The signature of a new proposal\<close>

lemma API_encryptMessage_value:
  "fst (API_encryptMessage E msg k st) =
     (if truthy msg then Some (WalletUtils_encryptMessage E (entropy st) (js_str msg) k) else None)"
  by (simp add: API_encryptMessage_def draw_def)

lemma sendTxProposal_submitted:
  assumes "credentials st = Some a" "Credentials_isComplete (objects st a)"
  shows "map req_body (sent (snd (sendTxProposal E opts st))) =
           map req_body (sent st) @
           [let ct = (if truthy (o_msg opts)
                      then Some (WalletUtils_encryptMessage E (entropy st) (js_str (o_msg opts))
                                   (sharedEncryptingKey (objects st a)))
                      else None)
            in TxProposalArgs (o_toAddress opts) (o_amount opts) ct
                 (WalletUtils_signMessage E
                    (WalletUtils_getProposalHash E (o_toAddress opts) (o_amount opts) ct)
                    (requestPrivKey (objects st a)))]"
  using assms
  by (auto simp: sendTxProposal_def API_encryptMessage_def draw_def doPostRequest_def
        doRequest_def Let_def
        split: prod.splits transport_result.splits)

text \<open>
  C8, as amended. \<open>sendTxProposal\<close> submits one request. It carries the address, the
  amount, the ciphertext and the signature, made with the request key, of the hash of
  these three; the ciphertext is \<open>WalletUtils.encryptMessage\<close> of the message under the
  shared encrypting key, and there is none for an empty or absent message. For two
  clients with complete credentials and the same request key, and the same options: if
  the message is empty or absent the two signatures are identical; otherwise the two
  signatures are identical whenever the two ciphertexts are, which is the case when the
  two clients hold the same shared encrypting key and the encryption draws the same
  randomness.
\<close>

theorem sendTxProposal_signature:
  assumes cred: "credentials st = Some a" "Credentials_isComplete (objects st a)"
    and cred': "credentials st' = Some a'" "Credentials_isComplete (objects st' a')"
    and key: "requestPrivKey (objects st a) = requestPrivKey (objects st' a')"
  shows "\<exists>ct sig ct' sig'.
           ct = (if truthy (o_msg opts)
                 then Some (WalletUtils_encryptMessage E (entropy st) (js_str (o_msg opts))
                              (sharedEncryptingKey (objects st a)))
                 else None) \<and>
           ct' = (if truthy (o_msg opts)
                  then Some (WalletUtils_encryptMessage E (entropy st') (js_str (o_msg opts))
                               (sharedEncryptingKey (objects st' a')))
                  else None) \<and>
           sig = WalletUtils_signMessage E
                   (WalletUtils_getProposalHash E (o_toAddress opts) (o_amount opts) ct)
                   (requestPrivKey (objects st a)) \<and>
           sig' = WalletUtils_signMessage E
                    (WalletUtils_getProposalHash E (o_toAddress opts) (o_amount opts) ct')
                    (requestPrivKey (objects st a)) \<and>
           map req_body (sent (snd (sendTxProposal E opts st))) =
             map req_body (sent st) @
             [TxProposalArgs (o_toAddress opts) (o_amount opts) ct sig] \<and>
           map req_body (sent (snd (sendTxProposal E opts st'))) =
             map req_body (sent st') @
             [TxProposalArgs (o_toAddress opts) (o_amount opts) ct' sig'] \<and>
           (ct = ct' \<longrightarrow> sig = sig') \<and>
           (\<not> truthy (o_msg opts) \<longrightarrow> ct = None \<and> ct' = None \<and> sig = sig') \<and>
           (sharedEncryptingKey (objects st a) = sharedEncryptingKey (objects st' a') \<and>
            entropy st = entropy st' \<longrightarrow> ct = ct' \<and> sig = sig')"
proof -
  let ?ct = "if truthy (o_msg opts)
             then Some (WalletUtils_encryptMessage E (entropy st) (js_str (o_msg opts))
                          (sharedEncryptingKey (objects st a)))
             else None"
  let ?ct' = "if truthy (o_msg opts)
              then Some (WalletUtils_encryptMessage E (entropy st') (js_str (o_msg opts))
                           (sharedEncryptingKey (objects st' a')))
              else None"
  let ?sig = "\<lambda>ct. WalletUtils_signMessage E
                 (WalletUtils_getProposalHash E (o_toAddress opts) (o_amount opts) ct)
                 (requestPrivKey (objects st a))"
  have 1: "map req_body (sent (snd (sendTxProposal E opts st))) =
             map req_body (sent st) @
             [TxProposalArgs (o_toAddress opts) (o_amount opts) ?ct (?sig ?ct)]"
    using sendTxProposal_submitted [OF cred, of E opts] by (simp add: Let_def)
  have 2: "map req_body (sent (snd (sendTxProposal E opts st'))) =
             map req_body (sent st') @
             [TxProposalArgs (o_toAddress opts) (o_amount opts) ?ct' (?sig ?ct')]"
    using sendTxProposal_submitted [OF cred', of E opts] key by (simp add: Let_def)
  have 3: "\<not> truthy (o_msg opts) \<longrightarrow> ?ct = None \<and> ?ct' = None \<and> ?sig ?ct = ?sig ?ct'"
    by simp
  have 4: "sharedEncryptingKey (objects st a) = sharedEncryptingKey (objects st' a') \<and>
            entropy st = entropy st' \<longrightarrow> ?ct = ?ct' \<and> ?sig ?ct = ?sig ?ct'"
    by simp
  have 5: "?ct = ?ct' \<longrightarrow> ?sig ?ct = ?sig ?ct'"
    by simp
  show ?thesis
    by (rule exI [of _ ?ct], rule exI [of _ "?sig ?ct"], rule exI [of _ ?ct'],
        rule exI [of _ "?sig ?ct'"])
       (intro conjI refl 1 2 3 4 5)
qed

theorem sendTxProposal_signature_witness:
  "map req_body (sent (snd (sendTxProposal ex_env hi_opts (client alice [Response 200 BNull])))) =
     [TxProposalArgs ''addr1'' 3 (Some ''sk|hi'') ''rkA:addr1|111|sk|hi''] \<and>
   map req_body (sent (snd (sendTxProposal ex_env hi_opts (client alice [])))) =
     [TxProposalArgs ''addr1'' 3 (Some ''sk|hi'') ''rkA:addr1|111|sk|hi''] \<and>
   map req_body (sent (snd (sendTxProposal ex_env silent_opts (client alice [Response 200 BNull])))) =
     [TxProposalArgs ''addr1'' 3 None ''rkA:addr1|111|''] \<and>
   map req_body (sent (snd (sendTxProposal ex_env silent_opts (client alice_elsewhere [])))) =
     [TxProposalArgs ''addr1'' 3 None ''rkA:addr1|111|'']"
proof -
  let ?st = "client alice [Response 200 BNull]"
  let ?st2 = "client alice []"
  let ?st3 = "client alice_elsewhere []"
  have c: "credentials ?st = Some 0" "Credentials_isComplete (objects ?st 0)"
    by (simp_all add: client_credentials client_objects alice_complete)
  have c2: "credentials ?st2 = Some 0" "Credentials_isComplete (objects ?st2 0)"
    by (simp_all add: client_credentials client_objects alice_complete)
  have c3: "credentials ?st3 = Some 0" "Credentials_isComplete (objects ?st3 0)"
    by (simp add: client_credentials) code_simp
  have k2: "requestPrivKey (objects ?st 0) = requestPrivKey (objects ?st2 0)"
    by (simp add: client_objects)
  have k3: "requestPrivKey (objects ?st 0) = requestPrivKey (objects ?st3 0)"
    by code_simp
  have same: "sharedEncryptingKey (objects ?st 0) = sharedEncryptingKey (objects ?st2 0)"
    "entropy ?st = entropy ?st2"
    by (simp_all add: client_def)
  have unsent: "sent ?st = []" "sent ?st2 = []" "sent ?st3 = []"
    by (simp_all add: client_def)
  have silent: "\<not> truthy (o_msg silent_opts)" by code_simp
  have hi: "map req_body (sent (snd (sendTxProposal ex_env hi_opts ?st))) =
     [TxProposalArgs ''addr1'' 3 (Some ''sk|hi'') ''rkA:addr1|111|sk|hi'']"
    by code_simp
  have quiet: "map req_body (sent (snd (sendTxProposal ex_env silent_opts ?st))) =
     [TxProposalArgs ''addr1'' 3 None ''rkA:addr1|111|'']"
    by code_simp
  from sendTxProposal_signature [OF c c2 k2, of hi_opts ex_env]
  obtain ct sig ct' sig' where
    s1: "map req_body (sent (snd (sendTxProposal ex_env hi_opts ?st))) =
           map req_body (sent ?st) @
           [TxProposalArgs (o_toAddress hi_opts) (o_amount hi_opts) ct sig]"
    and s2: "map req_body (sent (snd (sendTxProposal ex_env hi_opts ?st2))) =
           map req_body (sent ?st2) @
           [TxProposalArgs (o_toAddress hi_opts) (o_amount hi_opts) ct' sig']"
    and eq: "sharedEncryptingKey (objects ?st 0) = sharedEncryptingKey (objects ?st2 0) \<and>
             entropy ?st = entropy ?st2 \<longrightarrow> ct = ct' \<and> sig = sig'"
    by blast
  from eq same have "ct = ct'" "sig = sig'" by simp_all
  with s1 s2
  have "map req_body (sent (snd (sendTxProposal ex_env hi_opts ?st2))) =
        map req_body (sent (snd (sendTxProposal ex_env hi_opts ?st)))"
    by (simp add: unsent)
  with hi have hi2: "map req_body (sent (snd (sendTxProposal ex_env hi_opts ?st2))) =
     [TxProposalArgs ''addr1'' 3 (Some ''sk|hi'') ''rkA:addr1|111|sk|hi'']"
    by simp
  from sendTxProposal_signature [OF c c3 k3, of silent_opts ex_env]
  obtain ct sig ct' sig' where
    q1: "map req_body (sent (snd (sendTxProposal ex_env silent_opts ?st))) =
           map req_body (sent ?st) @
           [TxProposalArgs (o_toAddress silent_opts) (o_amount silent_opts) ct sig]"
    and q3: "map req_body (sent (snd (sendTxProposal ex_env silent_opts ?st3))) =
           map req_body (sent ?st3) @
           [TxProposalArgs (o_toAddress silent_opts) (o_amount silent_opts) ct' sig']"
    and eq: "\<not> truthy (o_msg silent_opts) \<longrightarrow> ct = None \<and> ct' = None \<and> sig = sig'"
    by blast
  from eq silent have "ct = ct'" "sig = sig'" by simp_all
  with q1 q3
  have "map req_body (sent (snd (sendTxProposal ex_env silent_opts ?st3))) =
        map req_body (sent (snd (sendTxProposal ex_env silent_opts ?st)))"
    by (simp add: unsent)
  with quiet have quiet3: "map req_body (sent (snd (sendTxProposal ex_env silent_opts ?st3))) =
     [TxProposalArgs ''addr1'' 3 None ''rkA:addr1|111|'']"
    by simp
  show ?thesis using hi hi2 quiet quiet3 by simp
qed

text \<open>
  The claim as first stated fails. Alice sends the same proposal twice: the encryption
  draws afresh, the ciphertexts differ, and so do the signatures. And Alice's identity in
  another wallet, with the same request key and another shared encrypting key, signs the
  same destination, amount and message differently.
\<close>

theorem sendTxProposal_signature_differs_counterexample:
  "map req_body
     (sent (snd (sendTxProposal ex_env hi_opts
        (snd (sendTxProposal ex_env hi_opts
           (client alice [Response 200 BNull, Response 200 BNull])))))) =
     [TxProposalArgs ''addr1'' 3 (Some ''sk|hi'') ''rkA:addr1|111|sk|hi'',
      TxProposalArgs ''addr1'' 3 (Some ''sk*|hi'') ''rkA:addr1|111|sk*|hi''] \<and>
   ''rkA:addr1|111|sk|hi'' \<noteq> ''rkA:addr1|111|sk*|hi'' \<and>
   requestPrivKey alice_elsewhere = requestPrivKey alice \<and>
   map req_body
     (sent (snd (sendTxProposal ex_env hi_opts (client alice_elsewhere [Response 200 BNull])))) =
     [TxProposalArgs ''addr1'' 3 (Some ''sk2|hi'') ''rkA:addr1|111|sk2|hi''] \<and>
   ''rkA:addr1|111|sk|hi'' \<noteq> ''rkA:addr1|111|sk2|hi''"
  by code_simp

end
